theory Spec2Isabelle
  imports Main "HOL-Library.AList"
begin

section \<open>Python values carried in job kwargs\<close>

text \<open>
  The scheduler of \<^verbatim>\<open>rasax/community/scheduler.py\<close> does not look inside the values of a
  job's \<^verbatim>\<open>kwargs\<close>; it inspects their truthiness and their runtime type, and applies the
  operators \<^verbatim>\<open>|\<close>, \<^verbatim>\<open>+\<close> and \<^verbatim>\<open>{**a, **b}\<close> to them. The values are modelled by the
  datatype below. Hashable values (the elements of a set, the keys of a dictionary) are
  strings or integers. A dictionary is an association list in insertion order, as a Python
  \<^verbatim>\<open>dict\<close> is.
\<close>

datatype atom = AStr string | AInt int

datatype pyval =
    PNone
  | PBool bool
  | PInt int
  | PStr string
  | PSet "atom set"
  | PList "pyval list"
  | PDict "(atom \<times> pyval) list"

datatype pytype = NoneType | TBool | TInt | TStr | TSet | TList | TDict

text \<open>\<^verbatim>\<open>type(v)\<close>: the exact runtime class, so \<^verbatim>\<open>bool\<close> and \<^verbatim>\<open>int\<close> differ.\<close>

fun type_of :: "pyval \<Rightarrow> pytype" where
  "type_of PNone = NoneType"
| "type_of (PBool b) = TBool"
| "type_of (PInt i) = TInt"
| "type_of (PStr s) = TStr"
| "type_of (PSet s) = TSet"
| "type_of (PList xs) = TList"
| "type_of (PDict d) = TDict"

text \<open>Python truthiness: \<^verbatim>\<open>None\<close>, \<^verbatim>\<open>False\<close>, zero and empty containers are falsy.\<close>

fun truthy :: "pyval \<Rightarrow> bool" where
  "truthy PNone = False"
| "truthy (PBool b) = b"
| "truthy (PInt i) = (i \<noteq> 0)"
| "truthy (PStr s) = (s \<noteq> [])"
| "truthy (PSet s) = (s \<noteq> {})"
| "truthy (PList xs) = (xs \<noteq> [])"
| "truthy (PDict d) = (d \<noteq> [])"

datatype error = TypeError | KeyError

text \<open>
  A dictionary with string keys (\<^verbatim>\<open>Dict[Text, Any]\<close>): the kwargs of a job and the
  messages of the job queue. \<^verbatim>\<open>d.get(key)\<close> answers \<^verbatim>\<open>None\<close> for a missing key,
  \<^verbatim>\<open>d[key] = v\<close> replaces the entry in place or appends a new one, and
  \<^verbatim>\<open>d.pop(key, default)\<close> removes the entry and hands back its value.
\<close>

type_synonym pydict = "(string \<times> pyval) list"

definition dict_get :: "pydict \<Rightarrow> string \<Rightarrow> pyval" where
  "dict_get d key = (case map_of d key of None \<Rightarrow> PNone | Some v \<Rightarrow> v)"

definition dict_set :: "pydict \<Rightarrow> string \<Rightarrow> pyval \<Rightarrow> pydict" where
  "dict_set d key v = AList.update key v d"

definition dict_pop :: "pydict \<Rightarrow> string \<Rightarrow> (pyval \<times> pydict) option" where
  "dict_pop d key =
     (case map_of d key of None \<Rightarrow> None | Some v \<Rightarrow> Some (v, AList.delete key d))"

definition dict_pop_default :: "pydict \<Rightarrow> string \<Rightarrow> pyval \<Rightarrow> pyval \<times> pydict" where
  "dict_pop_default d key dflt =
     (case map_of d key of None \<Rightarrow> (dflt, d) | Some v \<Rightarrow> (v, AList.delete key d))"

text \<open>
  The three operators of \<^verbatim>\<open>_merge_single_job_kwarg\<close>. Each raises \<^verbatim>\<open>TypeError\<close> when the
  right operand is not of the left operand's kind: \<^verbatim>\<open>set | x\<close> needs a set,
  \<^verbatim>\<open>list + x\<close> needs a list, and \<^verbatim>\<open>**x\<close> needs a mapping.
\<close>

definition dict_unpack :: "(atom \<times> pyval) list \<Rightarrow> (atom \<times> pyval) list \<Rightarrow> (atom \<times> pyval) list" where
  "dict_unpack d e = fold (\<lambda>(k, v) acc. AList.update k v acc) e d"

fun set_or :: "atom set \<Rightarrow> pyval \<Rightarrow> error + pyval" where
  "set_or s (PSet t) = Inr (PSet (s \<union> t))"
| "set_or s _ = Inl TypeError"

fun list_add :: "pyval list \<Rightarrow> pyval \<Rightarrow> error + pyval" where
  "list_add xs (PList ys) = Inr (PList (xs @ ys))"
| "list_add xs _ = Inl TypeError"

fun dict_display :: "(atom \<times> pyval) list \<Rightarrow> pyval \<Rightarrow> error + pyval" where
  "dict_display d (PDict e) = Inr (PDict (dict_unpack d e))"
| "dict_display d _ = Inl TypeError"

section \<open>Merging the kwargs of a job\<close>

text \<open>
  \<^verbatim>\<open>_merge_single_job_kwarg(current, updated)\<close>, in the order of its tests. The last
  equation is the end of the function body, reached when \<^verbatim>\<open>current\<close> is of none of the
  four kinds tested: Python then returns \<^verbatim>\<open>None\<close>.
\<close>

fun merge_single_job_kwarg :: "pyval \<Rightarrow> pyval \<Rightarrow> error + pyval" where
  "merge_single_job_kwarg PNone updated = Inr updated"
| "merge_single_job_kwarg current PNone = Inr current"
| "merge_single_job_kwarg (PSet s) updated = set_or s updated"
| "merge_single_job_kwarg (PList xs) updated = list_add xs updated"
| "merge_single_job_kwarg (PDict d) updated = dict_display d updated"
| "merge_single_job_kwarg (PBool b) updated = Inr updated"
| "merge_single_job_kwarg current updated = Inr PNone"

text \<open>Records written to the module's logger.\<close>

datatype log_record =
    TypeMismatchWarning string pytype pytype
  | JobNotFoundWarning pyval
  | RunningImmediatelyDebug string
  | ModifyingJobDebug string
  | CreatedDumpJobDebug

text \<open>
  The test of line 195, \<^verbatim>\<open>current and updated and type(current) != type(updated)\<close>.
\<close>

definition kwarg_type_mismatch :: "pyval \<Rightarrow> pyval \<Rightarrow> bool" where
  "kwarg_type_mismatch current updated \<longleftrightarrow>
     truthy current \<and> truthy updated \<and> type_of current \<noteq> type_of updated"

text \<open>
  The loop of \<^verbatim>\<open>_get_merged_job_kwargs\<close> over \<^verbatim>\<open>new_job_kwargs.items()\<close>. A mismatch logs a
  warning and goes on to the next item (\<^verbatim>\<open>continue\<close>); an exception of the merge ends the
  loop.
\<close>

fun merge_items :: "(string \<times> pyval) list \<Rightarrow> pydict \<Rightarrow> log_record list
    \<Rightarrow> error + (pydict \<times> log_record list)" where
  "merge_items [] merged lg = Inr (merged, lg)"
| "merge_items ((key, updated) # rest) merged lg =
     (let current = dict_get merged key in
      if kwarg_type_mismatch current updated
      then merge_items rest merged
             (lg @ [TypeMismatchWarning key (type_of updated) (type_of current)])
      else (case merge_single_job_kwarg current updated of
              Inl e \<Rightarrow> Inl e
            | Inr v \<Rightarrow> merge_items rest (dict_set merged key v) lg))"

text \<open>
  \<^verbatim>\<open>_get_merged_job_kwargs\<close> takes the kwargs of the existing job (\<^verbatim>\<open>existing_job.kwargs or {}\<close>)
  and the new kwargs, and returns the merged dictionary together with what it logged.
\<close>

definition get_merged_job_kwargs :: "pydict \<Rightarrow> pydict \<Rightarrow> error + (pydict \<times> log_record list)" where
  "get_merged_job_kwargs existing_kwargs new_job_kwargs =
     merge_items new_job_kwargs (if existing_kwargs = [] then [] else existing_kwargs) []"

section \<open>The job table and the control loop\<close>

text \<open>
  A scheduled job, as far as the scheduler module reads and writes it: its id, its trigger,
  the time of its next run and the kwargs its function will be called with. Times are
  seconds on the scheduler's clock; \<^verbatim>\<open>datetime.now()\<close> is the parameter \<open>now\<close> of the
  functions below.
\<close>

datatype trigger = DateTrigger int | CronTrigger | IntervalTrigger

datatype job_func = DumpChanges | OtherJobFunc

record job =
  job_id :: string
  func :: job_func
  trigger :: trigger
  next_run_time :: int
  kwargs :: pydict

record scheduler =
  jobs :: "job list"
  logged :: "log_record list"

definition JOB_ID_KEY :: string where
  "JOB_ID_KEY = ''job_id''"

definition CANCEL_JOB_KEY :: string where
  "CANCEL_JOB_KEY = ''cancel''"

text \<open>
  The job store of the scheduling library: ids are strings, so a value that is not a string
  names no job, and a value that cannot be hashed cannot be looked up at all.
\<close>

fun hashable :: "pyval \<Rightarrow> bool" where
  "hashable (PSet s) = False"
| "hashable (PList xs) = False"
| "hashable (PDict d) = False"
| "hashable v = True"

fun names_job :: "pyval \<Rightarrow> job \<Rightarrow> bool" where
  "names_job (PStr s) j = (job_id j = s)"
| "names_job v j = False"

definition get_job :: "scheduler \<Rightarrow> pyval \<Rightarrow> error + job option" where
  "get_job sched ident =
     (if hashable ident then Inr (find (names_job ident) (jobs sched)) else Inl TypeError)"

definition remove_job :: "scheduler \<Rightarrow> pyval \<Rightarrow> scheduler" where
  "remove_job sched ident = sched\<lparr>jobs := filter (\<lambda>j. \<not> names_job ident j) (jobs sched)\<rparr>"

definition add_job :: "scheduler \<Rightarrow> job \<Rightarrow> scheduler" where
  "add_job sched j = sched\<lparr>jobs := jobs sched @ [j]\<rparr>"

text \<open>
  \<^verbatim>\<open>Job.modify(**changes)\<close>: \<^verbatim>\<open>next_run_time\<close> is among the changes only when the job is
  to run immediately, \<^verbatim>\<open>kwargs\<close> always. The changed job is stored under its id, in place.
\<close>

definition job_modify :: "job \<Rightarrow> int option \<Rightarrow> pydict \<Rightarrow> job" where
  "job_modify j new_next_run_time new_kwargs =
     (case new_next_run_time of
        None \<Rightarrow> j\<lparr>kwargs := new_kwargs\<rparr>
      | Some t \<Rightarrow> j\<lparr>next_run_time := t, kwargs := new_kwargs\<rparr>)"

definition store_job :: "scheduler \<Rightarrow> job \<Rightarrow> scheduler" where
  "store_job sched j =
     sched\<lparr>jobs := map (\<lambda>old. if job_id old = job_id j then j else old) (jobs sched)\<rparr>"

definition log_to :: "scheduler \<Rightarrow> log_record list \<Rightarrow> scheduler" where
  "log_to sched records = sched\<lparr>logged := logged sched @ records\<rparr>"

text \<open>
  \<^verbatim>\<open>_add_job_to_dump_files\<close>: a job with a \<^verbatim>\<open>date\<close> trigger at \<^verbatim>\<open>now\<close> plus the maximum
  dumping delay. The id of the dumping job and the delay are constants of modules outside
  this development (\<^verbatim>\<open>background_dump_service.BACKGROUND_DUMPING_JOB_ID\<close>,
  \<^verbatim>\<open>config.MAX_DUMPING_DELAY_IN_SECONDS\<close>); they are the parameters \<open>dump_id\<close> and
  \<open>max_delay\<close>.
\<close>

definition add_job_to_dump_files :: "string \<Rightarrow> int \<Rightarrow> int \<Rightarrow> scheduler \<Rightarrow> pydict \<Rightarrow> scheduler" where
  "add_job_to_dump_files dump_id max_delay now sched job_information =
     (let dumping_delay = now + max_delay in
      log_to
        (add_job sched
           \<lparr>job_id = dump_id, func = DumpChanges, trigger = DateTrigger dumping_delay,
            next_run_time = dumping_delay, kwargs = job_information\<rparr>)
        [CreatedDumpJobDebug])"

text \<open>
  \<^verbatim>\<open>_modify_job\<close> (named \<open>modify_job_private\<close> here, since the module also has the public
  \<^verbatim>\<open>modify_job\<close>): pops \<^verbatim>\<open>run_immediately\<close>, merges what is left into the job's kwargs and
  applies the changes with one call of \<^verbatim>\<open>Job.modify\<close>. A \<^verbatim>\<open>TypeError\<close> of the merge leaves
  before the job is modified.
\<close>

definition modify_job_private :: "int \<Rightarrow> scheduler \<Rightarrow> job \<Rightarrow> pydict \<Rightarrow> error + scheduler" where
  "modify_job_private now sched background_job job_modification =
     (let (run_immediately, rest) =
            dict_pop_default job_modification ''run_immediately'' (PBool False);
          new_next_run_time = (if truthy run_immediately then Some now else None);
          lg = (if truthy run_immediately
                then [RunningImmediatelyDebug (job_id background_job)] else [])
      in case get_merged_job_kwargs (kwargs background_job) rest of
           Inl e \<Rightarrow> Inl e
         | Inr (merged, warnings) \<Rightarrow>
             Inr (log_to
                    (store_job sched (job_modify background_job new_next_run_time merged))
                    (lg @ warnings @ [ModifyingJobDebug (job_id background_job)])))"

text \<open>
  \<^verbatim>\<open>_handle_next_queue_item\<close>: one message of the job queue. \<^verbatim>\<open>job_information.pop(JOB_ID_KEY)\<close>
  has no default and raises \<^verbatim>\<open>KeyError\<close> on a message without an id.
\<close>

definition handle_next_queue_item ::
    "string \<Rightarrow> int \<Rightarrow> int \<Rightarrow> scheduler \<Rightarrow> pydict \<Rightarrow> error + scheduler" where
  "handle_next_queue_item dump_id max_delay now sched job_information =
     (case dict_pop job_information JOB_ID_KEY of
        None \<Rightarrow> Inl KeyError
      | Some (ident, info) \<Rightarrow>
          (case get_job sched ident of
             Inl e \<Rightarrow> Inl e
           | Inr existing_job \<Rightarrow>
               (let (should_cancel_job, info') =
                      dict_pop_default info CANCEL_JOB_KEY (PBool False)
                in if truthy should_cancel_job \<and> existing_job \<noteq> None
                   then Inr (remove_job sched ident)
                   else (case existing_job of
                           Some j \<Rightarrow> modify_job_private now sched j info'
                         | None \<Rightarrow>
                             if ident = PStr dump_id
                             then Inr (add_job_to_dump_files dump_id max_delay now sched info')
                             else Inr (log_to sched [JobNotFoundWarning ident])))))"

text \<open>
  The senders \<^verbatim>\<open>modify_job\<close>, \<^verbatim>\<open>run_job_immediately\<close> and \<^verbatim>\<open>cancel_job\<close> put a message on
  the job queue, which is a list of messages here. \<^verbatim>\<open>run_job_immediately\<close> passes
  \<^verbatim>\<open>run_immediately=True\<close> in front of the caller's kwargs (Python refuses a call that
  gives the keyword twice, so the caller's kwargs have no such key).
\<close>

definition modify_job :: "pydict list \<Rightarrow> string \<Rightarrow> pydict \<Rightarrow> pydict list" where
  "modify_job queue ident kw = queue @ [dict_set kw JOB_ID_KEY (PStr ident)]"

definition run_job_immediately :: "pydict list \<Rightarrow> string \<Rightarrow> pydict \<Rightarrow> pydict list" where
  "run_job_immediately queue ident kw =
     modify_job queue ident ((''run_immediately'', PBool True) # kw)"

definition cancel_job :: "pydict list \<Rightarrow> string \<Rightarrow> pydict list" where
  "cancel_job queue ident = queue @ [[(JOB_ID_KEY, PStr ident), (CANCEL_JOB_KEY, PBool True)]]"

section \<open>The HTTP endpoints of the Git blueprint\<close>

text \<open>
  The exception classes named in \<^verbatim>\<open>api/blueprints/git.py\<close>. \<^verbatim>\<open>GitHTTPSCredentialsError\<close> is
  a subclass of \<^verbatim>\<open>CredentialsError\<close> (\<^verbatim>\<open>integrated_version_control/exceptions.py\<close>); the
  other classes derive from \<^verbatim>\<open>Exception\<close> directly. A constructor stands for the
  instances of its class that are instances of no other class named here, and
  \<open>OtherException\<close> for any exception that none of the \<^verbatim>\<open>except\<close> clauses catches.
\<close>

datatype exception =
    RasaLicenseException
  | ProjectLayoutError
  | CredentialsError
  | GitHTTPSCredentialsError
  | ValueError
  | GitCommitError
  | GitConcurrentOperationException
  | OtherException

definition is_instance :: "exception \<Rightarrow> exception \<Rightarrow> bool" where
  "is_instance e cls \<longleftrightarrow> e = cls \<or> (e = GitHTTPSCredentialsError \<and> cls = CredentialsError)"

text \<open>What a call returns or raises.\<close>

datatype 'a outcome = Returned 'a | Raised exception

fun and_then :: "'a outcome \<Rightarrow> ('a \<Rightarrow> 'b outcome) \<Rightarrow> 'b outcome" where
  "and_then (Returned x) f = f x"
| "and_then (Raised e) f = Raised e"

text \<open>
  \<^verbatim>\<open>try: ... except A: ... except B: ...\<close>: the first clause whose class the exception is an
  instance of handles it; an exception that no clause matches leaves the handler.
\<close>

fun try_except :: "'r outcome \<Rightarrow> (exception \<times> (exception \<Rightarrow> 'r)) list \<Rightarrow> 'r outcome" where
  "try_except (Returned r) clauses = Returned r"
| "try_except (Raised e) [] = Raised e"
| "try_except (Raised e) ((cls, handler) # clauses) =
     (if is_instance e cls then Returned (handler e) else try_except (Raised e) clauses)"

text \<open>
  Responses. \<^verbatim>\<open>common_utils.error(status, reason, message, details)\<close> is kept as a
  constructor holding its arguments. The parts of a formatted message are kept apart: an
  argument part stands for the value the message shows in single quotes, and the empty list
  for a call that passes no message.
\<close>

datatype text_part = Lit string | RepositoryIdArg int | BranchNameArg string

datatype 'a http_response =
    JsonResponse nat 'a
  | TextResponse nat string
  | ErrorResponse nat string "text_part list" "exception option"

fun status :: "'a http_response \<Rightarrow> nat" where
  "status (JsonResponse code body) = code"
| "status (TextResponse code body) = code"
| "status (ErrorResponse code reason message details) = code"

definition OK :: nat where "OK = 200"
definition CREATED :: nat where "CREATED = 201"
definition NO_CONTENT :: nat where "NO_CONTENT = 204"
definition BAD_REQUEST :: nat where "BAD_REQUEST = 400"
definition FORBIDDEN :: nat where "FORBIDDEN = 403"
definition NOT_FOUND :: nat where "NOT_FOUND = 404"
definition CONFLICT :: nat where "CONFLICT = 409"
definition UNPROCESSABLE_ENTITY :: nat where "UNPROCESSABLE_ENTITY = 422"

text \<open>
  \<^verbatim>\<open>add_repository\<close> (POST \<^verbatim>\<open>/git_repositories\<close>). The parameters are the outcomes of the
  three calls of the \<^verbatim>\<open>try\<close> body: \<^verbatim>\<open>save_repository\<close>,
  \<^verbatim>\<open>trigger_immediate_project_synchronization\<close> and \<^verbatim>\<open>websocket_service.send_message\<close>.
\<close>

definition add_repository :: "'a outcome \<Rightarrow> unit outcome \<Rightarrow> unit outcome \<Rightarrow> 'a http_response outcome" where
  "add_repository save_repository trigger_immediate_project_synchronization send_message =
     try_except
       (and_then save_repository (\<lambda>saved.
        and_then trigger_immediate_project_synchronization (\<lambda>_.
        and_then send_message (\<lambda>_.
        Returned (JsonResponse CREATED saved)))))
       [(RasaLicenseException, \<lambda>e. ErrorResponse CONFLICT ''RasaEnterpriseRequired'' [] (Some e)),
        (ProjectLayoutError, \<lambda>e. ErrorResponse BAD_REQUEST ''RepositoryCreationFailed''
           [Lit ''The repository does not have the expected project layout.''] (Some e)),
        (CredentialsError, \<lambda>e. ErrorResponse UNPROCESSABLE_ENTITY ''RepositoryCreationFailed''
           [Lit ''Insufficient permissions for remote repository.''] (Some e))]"

text \<open>\<^verbatim>\<open>update_repository\<close> (PUT \<^verbatim>\<open>/git_repositories/{id}\<close>).\<close>

definition update_repository :: "int \<Rightarrow> 'a outcome \<Rightarrow> 'a http_response outcome" where
  "update_repository repository_id git_update_repository =
     try_except
       (and_then git_update_repository (\<lambda>updated. Returned (JsonResponse OK updated)))
       [(RasaLicenseException, \<lambda>e. ErrorResponse CONFLICT ''RasaEnterpriseRequired'' [] (Some e)),
        (GitHTTPSCredentialsError, \<lambda>e. ErrorResponse FORBIDDEN ''IncorrectCredentials'' [] (Some e)),
        (ProjectLayoutError, \<lambda>e. ErrorResponse BAD_REQUEST ''InvalidProjectLayout''
           [Lit ''Repository with ID '', RepositoryIdArg repository_id,
            Lit '' does not have a valid Rasa project layout.''] (Some e)),
        (ValueError, \<lambda>e. ErrorResponse NOT_FOUND ''RepositoryNotFound''
           [Lit ''Repository with '', RepositoryIdArg repository_id,
            Lit '' could not be found.''] (Some e))]"

text \<open>
  \<^verbatim>\<open>checkout_branch\<close> (PUT \<^verbatim>\<open>.../branches/{branch}\<close>). \<open>git_checkout_branch\<close> is the service
  call, given the branch name, \<^verbatim>\<open>force\<close> and \<^verbatim>\<open>inject_changes\<close>; \<open>synchronize_project\<close>
  is the awaited coroutine, given \<^verbatim>\<open>force_data_injection\<close>: its value is how the coroutine
  ended. \<open>force\<close> is the request's \<^verbatim>\<open>force\<close> argument, false when absent.
\<close>

definition checkout_branch ::
    "(string \<Rightarrow> bool \<Rightarrow> bool \<Rightarrow> unit outcome) \<Rightarrow> (bool \<Rightarrow> unit outcome)
      \<Rightarrow> int \<Rightarrow> string \<Rightarrow> bool \<Rightarrow> 'a http_response outcome" where
  "checkout_branch git_checkout_branch synchronize_project repository_id branch_name force =
     try_except
       (and_then (git_checkout_branch branch_name force False) (\<lambda>_.
        and_then (synchronize_project True) (\<lambda>_.
        Returned (TextResponse NO_CONTENT []))))
       [(ProjectLayoutError, \<lambda>e. ErrorResponse BAD_REQUEST ''InvalidProjectLayout''
           [Lit ''Branch '', BranchNameArg branch_name, Lit '' for repository with ID '',
            RepositoryIdArg repository_id,
            Lit '' does not have a valid Rasa project layout.''] (Some e)),
        (ValueError, \<lambda>e. ErrorResponse NOT_FOUND ''BranchNotFound''
           [Lit ''Branch '', BranchNameArg branch_name, Lit '' for repository with ID '',
            RepositoryIdArg repository_id, Lit '' could not be found.''] (Some e))]"

text \<open>
  \<^verbatim>\<open>create_commit\<close> (POST \<^verbatim>\<open>.../branches/{branch}/commits\<close>).
  \<open>commit_and_push_changes_to\<close> is the awaited service call, given the branch name.
\<close>

definition create_commit ::
    "(string \<Rightarrow> 'a outcome) \<Rightarrow> unit outcome \<Rightarrow> int \<Rightarrow> string \<Rightarrow> 'a http_response outcome" where
  "create_commit commit_and_push_changes_to send_message repository_id branch_name =
     try_except
       (and_then (commit_and_push_changes_to branch_name) (\<lambda>commit.
        and_then send_message (\<lambda>_.
        Returned (JsonResponse CREATED commit))))
       [(ValueError, \<lambda>e. ErrorResponse NOT_FOUND ''RepositoryNotFound''
           [Lit ''Branch '', BranchNameArg branch_name, Lit '' for repository with ID '',
            RepositoryIdArg repository_id, Lit '' could not be found.''] None),
        (GitCommitError, \<lambda>e. ErrorResponse FORBIDDEN ''BranchIsProtected''
           [Lit ''Branch '', BranchNameArg branch_name,
            Lit '' is protected. Please add your changes to a different branch.''] None),
        (GitConcurrentOperationException, \<lambda>e. ErrorResponse CONFLICT
           ''AnotherIVCOperationInProgress''
           [Lit ''There is another Integrated Version Control operation in progress.''] None)]"

section \<open>Properties of the kwargs merge\<close>

text \<open>Reading a dictionary after an item assignment.\<close>

lemma map_of_dict_set: "map_of (dict_set d k v) = (map_of d)(k \<mapsto> v)"
  by (simp add: dict_set_def update_conv')

lemma dict_get_dict_set: "dict_get (dict_set d k v) k' = (if k' = k then v else dict_get d k')"
  by (simp add: dict_get_def map_of_dict_set)

lemma merge_items_log_grows:
  "merge_items new merged lg = Inr (kw', w) \<Longrightarrow> set lg \<subseteq> set w"
proof (induction new arbitrary: merged lg)
  case Nil
  then show ?case by simp
next
  case (Cons p new)
  obtain key updated where p: "p = (key, updated)" by (cases p)
  show ?case
  proof (cases "kwarg_type_mismatch (dict_get merged key) updated")
    case True
    with Cons.prems p have
      "merge_items new merged
         (lg @ [TypeMismatchWarning key (type_of updated) (type_of (dict_get merged key))])
       = Inr (kw', w)" by simp
    from Cons.IH [OF this] show ?thesis by simp
  next
    case False
    with Cons.prems p obtain v where
      "merge_items new (dict_set merged key v) lg = Inr (kw', w)"
      by (auto split: sum.splits)
    from Cons.IH [OF this] show ?thesis .
  qed
qed

lemma merge_items_other_keys:
  "merge_items new merged lg = Inr (kw', w) \<Longrightarrow> k \<notin> fst ` set new
     \<Longrightarrow> map_of kw' k = map_of merged k"
proof (induction new arbitrary: merged lg)
  case Nil
  then show ?case by simp
next
  case (Cons p new)
  obtain key updated where p: "p = (key, updated)" by (cases p)
  from Cons.prems p have neq: "k \<noteq> key" and notin: "k \<notin> fst ` set new" by auto
  show ?case
  proof (cases "kwarg_type_mismatch (dict_get merged key) updated")
    case True
    with Cons.prems p have
      "merge_items new merged
         (lg @ [TypeMismatchWarning key (type_of updated) (type_of (dict_get merged key))])
       = Inr (kw', w)" by simp
    from Cons.IH [OF this notin] show ?thesis .
  next
    case False
    with Cons.prems p obtain v where
      "merge_items new (dict_set merged key v) lg = Inr (kw', w)"
      by (auto split: sum.splits)
    from Cons.IH [OF this notin] neq show ?thesis by (simp add: map_of_dict_set)
  qed
qed

lemma merge_items_key:
  assumes "merge_items new merged lg = Inr (kw', w)"
    and "distinct (map fst new)" and "(k, u) \<in> set new"
  shows "if kwarg_type_mismatch (dict_get merged k) u
         then map_of kw' k = map_of merged k
              \<and> TypeMismatchWarning k (type_of u) (type_of (dict_get merged k)) \<in> set w
         else merge_single_job_kwarg (dict_get merged k) u = Inr (dict_get kw' k)
              \<and> map_of kw' k = Some (dict_get kw' k)"
  using assms
proof (induction new arbitrary: merged lg)
  case Nil
  then show ?case by simp
next
  case (Cons p new)
  obtain key updated where p: "p = (key, updated)" by (cases p)
  from Cons.prems(2) p have notin: "key \<notin> fst ` set new" and dist: "distinct (map fst new)"
    by auto
  show ?case
  proof (cases "(k, u) = (key, updated)")
    case here: True
    show ?thesis
    proof (cases "kwarg_type_mismatch (dict_get merged key) updated")
      case True
      with Cons.prems(1) p have run:
        "merge_items new merged
           (lg @ [TypeMismatchWarning key (type_of updated) (type_of (dict_get merged key))])
         = Inr (kw', w)" by simp
      from merge_items_other_keys [OF run notin] merge_items_log_grows [OF run] True here
      show ?thesis by auto
    next
      case False
      with Cons.prems(1) p obtain v where
        v: "merge_single_job_kwarg (dict_get merged key) updated = Inr v"
        and run: "merge_items new (dict_set merged key v) lg = Inr (kw', w)"
        by (auto split: sum.splits)
      from merge_items_other_keys [OF run notin]
      have "map_of kw' key = Some v" by (simp add: map_of_dict_set)
      with v False here show ?thesis by (simp add: dict_get_def)
    qed
  next
    case there: False
    with Cons.prems(3) p have mem: "(k, u) \<in> set new" by auto
    with notin have neq: "k \<noteq> key" by force
    show ?thesis
    proof (cases "kwarg_type_mismatch (dict_get merged key) updated")
      case True
      with Cons.prems(1) p have run:
        "merge_items new merged
           (lg @ [TypeMismatchWarning key (type_of updated) (type_of (dict_get merged key))])
         = Inr (kw', w)" by simp
      from Cons.IH [OF run dist mem] show ?thesis .
    next
      case False
      with Cons.prems(1) p obtain v where
        run: "merge_items new (dict_set merged key v) lg = Inr (kw', w)"
        by (auto split: sum.splits)
      from Cons.IH [OF run dist mem] neq show ?thesis
        by (simp add: dict_get_dict_set map_of_dict_set cong: if_cong)
    qed
  qed
qed


text \<open>
  The kwargs a job holds are taken as they are: \<^verbatim>\<open>existing_job.kwargs or {}\<close> only replaces
  an empty dictionary by a new empty one.
\<close>

lemma get_merged_job_kwargs_unfold:
  "get_merged_job_kwargs existing new = merge_items new existing []"
  by (simp add: get_merged_job_kwargs_def)

lemma same_type_no_mismatch: "type_of c = type_of u \<Longrightarrow> \<not> kwarg_type_mismatch c u"
  by (simp add: kwarg_type_mismatch_def)

text \<open>
  What the merge leaves under a key of the update, when the two values are of the same
  type: the value computed by \<^verbatim>\<open>_merge_single_job_kwarg\<close>.
\<close>

lemma merged_value_same_type:
  assumes "distinct (map fst new)" and "(key, updated) \<in> set new"
    and "get_merged_job_kwargs existing new = Inr (merged, warnings)"
    and "type_of (dict_get existing key) = type_of updated"
  shows "merge_single_job_kwarg (dict_get existing key) updated = Inr (dict_get merged key)"
proof -
  from assms(3) have run: "merge_items new existing [] = Inr (merged, warnings)"
    by (simp add: get_merged_job_kwargs_unfold)
  from merge_items_key [OF run assms(1) assms(2)] same_type_no_mismatch [OF assms(4)]
  show ?thesis by simp
qed


lemma files_example:
  "get_merged_job_kwargs [(''files'', PSet {AStr ''a''})] [(''files'', PSet {AStr ''b''})]
     = Inr ([(''files'', PSet {AStr ''a'', AStr ''b''})], [])"
  by (simp add: get_merged_job_kwargs_def dict_get_def dict_set_def kwarg_type_mismatch_def
      insert_commute)



text \<open>The only exception of the merge is the \<^verbatim>\<open>TypeError\<close> of one of the three operators.\<close>

lemma merge_single_error: "merge_single_job_kwarg c u = Inl e \<Longrightarrow> e = TypeError"
  by (cases c; cases u) simp_all

lemma merge_items_error: "merge_items new merged lg = Inl e \<Longrightarrow> e = TypeError"
proof (induction new arbitrary: merged lg)
  case Nil
  then show ?case by simp
next
  case (Cons p new)
  obtain key updated where p: "p = (key, updated)" by (cases p)
  from Cons.prems p Cons.IH show ?case
    by (auto simp: Let_def split: if_splits sum.splits dest: merge_single_error)
qed

text \<open>
  Where both values are truthy and of different runtime types, the merge logs a warning and
  leaves the entry of the key as it is: an update of that key alone returns the kwargs
  unchanged with the one warning and raises nothing, and in any update that returns, the
  entry is unchanged and the warning is among the records logged.
\<close>

lemma truthy_type_mismatch_is_dropped:
  assumes "truthy (dict_get existing key)" and "truthy updated"
    and "type_of (dict_get existing key) \<noteq> type_of updated"
  shows "get_merged_job_kwargs existing [(key, updated)]
           = Inr (existing,
                  [TypeMismatchWarning key (type_of updated) (type_of (dict_get existing key))])
       \<and> (\<forall>new merged warnings.
             distinct (map fst new) \<and> (key, updated) \<in> set new
             \<and> get_merged_job_kwargs existing new = Inr (merged, warnings)
            \<longrightarrow> map_of merged key = map_of existing key
                \<and> TypeMismatchWarning key (type_of updated) (type_of (dict_get existing key))
                    \<in> set warnings)"
proof -
  from assms have mismatch: "kwarg_type_mismatch (dict_get existing key) updated"
    by (simp add: kwarg_type_mismatch_def)
  then have single: "get_merged_job_kwargs existing [(key, updated)]
           = Inr (existing,
                  [TypeMismatchWarning key (type_of updated) (type_of (dict_get existing key))])"
    by (simp add: get_merged_job_kwargs_unfold)
  have many: "map_of merged key = map_of existing key
                \<and> TypeMismatchWarning key (type_of updated) (type_of (dict_get existing key))
                    \<in> set warnings"
    if "distinct (map fst new)" "(key, updated) \<in> set new"
       "get_merged_job_kwargs existing new = Inr (merged, warnings)" for new merged warnings
  proof -
    from that(3) have run: "merge_items new existing [] = Inr (merged, warnings)"
      by (simp add: get_merged_job_kwargs_unfold)
    from merge_items_key [OF run that(1) that(2)] mismatch show ?thesis by simp
  qed
  from single many show ?thesis by blast
qed

lemma truthy_type_mismatch_is_dropped_example:
  "truthy (dict_get [(''files'', PList [PInt 1])] ''files'')
   \<and> truthy (PSet {AStr ''a''})
   \<and> type_of (dict_get [(''files'', PList [PInt 1])] ''files'') \<noteq> type_of (PSet {AStr ''a''})
   \<and> get_merged_job_kwargs [(''files'', PList [PInt 1])] [(''files'', PSet {AStr ''a''})]
       = Inr ([(''files'', PList [PInt 1])], [TypeMismatchWarning ''files'' TSet TList])"
proof -
  have a: "truthy (dict_get [(''files'', PList [PInt 1])] ''files'')"
    by (simp add: dict_get_def)
  have b: "truthy (PSet {AStr ''a''})" by simp
  have c: "type_of (dict_get [(''files'', PList [PInt 1])] ''files'') \<noteq> type_of (PSet {AStr ''a''})"
    by (simp add: dict_get_def)
  from truthy_type_mismatch_is_dropped [OF a b c]
  have "get_merged_job_kwargs [(''files'', PList [PInt 1])] [(''files'', PSet {AStr ''a''})]
       = Inr ([(''files'', PList [PInt 1])], [TypeMismatchWarning ''files'' TSet TList])"
    by (simp add: dict_get_def)
  with a b c show ?thesis by blast
qed

text \<open>
  C2. The claim is what the mismatch test of \<^verbatim>\<open>_get_merged_job_kwargs\<close> is written for, and
  the code misses it where the current value is falsy. A current empty list and an update
  that is a set differ in type, yet no warning is logged: the test is passed over,
  \<^verbatim>\<open>[] + {"a"}\<close> raises \<^verbatim>\<open>TypeError\<close>, and the exception leaves
  \<^verbatim>\<open>_handle_next_queue_item\<close>. With a non-empty list in the same place the update is
  dropped with a warning, as the claim says.
\<close>

theorem mismatched_update_on_empty_list_raises:
  "type_of (PList []) \<noteq> type_of (PSet {AStr ''a''})
   \<and> get_merged_job_kwargs [(''files'', PList [])] [(''files'', PSet {AStr ''a''})]
       = Inl TypeError
   \<and> handle_next_queue_item dump_id max_delay now
        \<lparr>jobs = [\<lparr>job_id = ''git'', func = OtherJobFunc, trigger = CronTrigger,
                   next_run_time = 2000, kwargs = [(''files'', PList [])]\<rparr>],
         logged = []\<rparr>
        [(''files'', PSet {AStr ''a''}), (JOB_ID_KEY, PStr ''git'')]
       = Inl TypeError
   \<and> get_merged_job_kwargs [(''files'', PList [PStr ''x''])] [(''files'', PSet {AStr ''a''})]
       = Inr ([(''files'', PList [PStr ''x''])], [TypeMismatchWarning ''files'' TSet TList])"
  by (simp add: handle_next_queue_item_def dict_pop_def dict_pop_default_def get_job_def
      modify_job_private_def get_merged_job_kwargs_def dict_get_def kwarg_type_mismatch_def
      JOB_ID_KEY_def CANCEL_JOB_KEY_def AList.delete_eq)

text \<open>A key that the job does not hold yet receives the value of the update.\<close>

lemma merged_value_new_key:
  assumes "distinct (map fst new)" and "(key, updated) \<in> set new"
    and "get_merged_job_kwargs existing new = Inr (merged, warnings)"
    and "dict_get existing key = PNone"
  shows "dict_get merged key = updated"
proof -
  from assms(3) have run: "merge_items new existing [] = Inr (merged, warnings)"
    by (simp add: get_merged_job_kwargs_unfold)
  from assms(4) have "\<not> kwarg_type_mismatch (dict_get existing key) updated"
    by (simp add: kwarg_type_mismatch_def)
  with merge_items_key [OF run assms(1) assms(2)] assms(4) show ?thesis by simp
qed

text \<open>
  C9. When the current and the updated value of a key are both not \<^verbatim>\<open>None\<close> and of the same
  type, and that type is none of set, list, dict and bool (two strings, two integers),
  \<^verbatim>\<open>_merge_single_job_kwarg\<close> returns \<^verbatim>\<open>None\<close>, and the merged kwargs hold \<^verbatim>\<open>None\<close> under
  the key: neither the old nor the new value is kept.
\<close>

theorem same_type_without_merge_rule_gives_none:
  assumes "current \<noteq> PNone" and "updated \<noteq> PNone"
    and "type_of current = type_of updated"
    and "type_of current \<notin> {TSet, TList, TDict, TBool}"
  shows "merge_single_job_kwarg current updated = Inr PNone
       \<and> (\<forall>existing key. dict_get existing key = current
            \<longrightarrow> get_merged_job_kwargs existing [(key, updated)]
                  = Inr (dict_set existing key PNone, []))
       \<and> (\<forall>existing key new merged warnings.
             dict_get existing key = current \<and> distinct (map fst new)
             \<and> (key, updated) \<in> set new
             \<and> get_merged_job_kwargs existing new = Inr (merged, warnings)
            \<longrightarrow> map_of merged key = Some PNone)"
proof -
  from assms have single: "merge_single_job_kwarg current updated = Inr PNone"
    by (cases current; cases updated) simp_all
  have one: "get_merged_job_kwargs existing [(key, updated)]
                  = Inr (dict_set existing key PNone, [])"
    if "dict_get existing key = current" for existing key
    using that single same_type_no_mismatch [OF assms(3)]
    by (simp add: get_merged_job_kwargs_unfold)
  have many: "map_of merged key = Some PNone"
    if "dict_get existing key = current" "distinct (map fst new)" "(key, updated) \<in> set new"
       "get_merged_job_kwargs existing new = Inr (merged, warnings)"
    for existing key new merged warnings
  proof -
    from that(4) have run: "merge_items new existing [] = Inr (merged, warnings)"
      by (simp add: get_merged_job_kwargs_unfold)
    from merge_items_key [OF run that(2) that(3)] that(1) single
      same_type_no_mismatch [OF assms(3)]
    show ?thesis by simp
  qed
  from single one many show ?thesis by blast
qed

theorem same_type_without_merge_rule_gives_none_witness:
  "PStr ''old'' \<noteq> PNone \<and> PStr ''new'' \<noteq> PNone
   \<and> type_of (PStr ''old'') = type_of (PStr ''new'')
   \<and> type_of (PStr ''old'') \<notin> {TSet, TList, TDict, TBool}
   \<and> merge_single_job_kwarg (PStr ''old'') (PStr ''new'') = Inr PNone
   \<and> get_merged_job_kwargs [(''branch'', PStr ''old'')] [(''branch'', PStr ''new'')]
       = Inr ([(''branch'', PNone)], [])"
proof -
  have a: "PStr ''old'' \<noteq> PNone" and b: "PStr ''new'' \<noteq> PNone" by simp_all
  have c: "type_of (PStr ''old'') = type_of (PStr ''new'')" by simp
  have d: "type_of (PStr ''old'') \<notin> {TSet, TList, TDict, TBool}" by simp
  have g: "dict_get [(''branch'', PStr ''old'')] ''branch'' = PStr ''old''"
    by (simp add: dict_get_def)
  note inst = same_type_without_merge_rule_gives_none [OF a b c d]
  from inst have m: "merge_single_job_kwarg (PStr ''old'') (PStr ''new'') = Inr PNone"
    by blast
  from inst g
  have "get_merged_job_kwargs [(''branch'', PStr ''old'')] [(''branch'', PStr ''new'')]
       = Inr (dict_set [(''branch'', PStr ''old'')] ''branch'' PNone, [])"
    by blast
  then have "get_merged_job_kwargs [(''branch'', PStr ''old'')] [(''branch'', PStr ''new'')]
       = Inr ([(''branch'', PNone)], [])"
    by (simp add: dict_set_def)
  with a b c d m show ?thesis by blast
qed

text \<open>
  C10. The mismatch test holds only when both values are truthy. A current value that is an
  empty set, an empty list or an empty dictionary is falsy, so an update of another type
  passes the test and reaches the operator of \<^verbatim>\<open>_merge_single_job_kwarg\<close>, which raises
  \<^verbatim>\<open>TypeError\<close>: no warning is logged and no update that carries this key returns. The
  current empty set with an incoming non-empty list is the instance of the witness.
\<close>

theorem falsy_current_bypasses_mismatch_guard:
  assumes "current \<in> {PSet {}, PList [], PDict []}"
    and "updated \<noteq> PNone"
    and "type_of updated \<noteq> type_of current"
    and "dict_get existing key = current"
  shows "(\<forall>c u. kwarg_type_mismatch c u \<longrightarrow> truthy c \<and> truthy u)
       \<and> \<not> kwarg_type_mismatch current updated
       \<and> merge_single_job_kwarg current updated = Inl TypeError
       \<and> get_merged_job_kwargs existing [(key, updated)] = Inl TypeError
       \<and> (\<forall>new. distinct (map fst new) \<and> (key, updated) \<in> set new
            \<longrightarrow> get_merged_job_kwargs existing new = Inl TypeError)"
proof -
  have guard: "\<forall>c u. kwarg_type_mismatch c u \<longrightarrow> truthy c \<and> truthy u"
    by (simp add: kwarg_type_mismatch_def)
  from assms(1) have falsy: "\<not> truthy current" by auto
  then have pass: "\<not> kwarg_type_mismatch current updated"
    by (simp add: kwarg_type_mismatch_def)
  from assms(1,2,3) have raise: "merge_single_job_kwarg current updated = Inl TypeError"
    by (cases updated) auto
  from pass raise assms(4)
  have one: "get_merged_job_kwargs existing [(key, updated)] = Inl TypeError"
    by (simp add: get_merged_job_kwargs_unfold)
  have many: "get_merged_job_kwargs existing new = Inl TypeError"
    if "distinct (map fst new)" "(key, updated) \<in> set new" for new
  proof (cases "merge_items new existing []")
    case (Inl e)
    with merge_items_error [OF Inl] show ?thesis
      by (simp add: get_merged_job_kwargs_unfold)
  next
    case (Inr r)
    obtain merged warnings where "r = (merged, warnings)" by (cases r)
    with Inr have run: "merge_items new existing [] = Inr (merged, warnings)" by simp
    from merge_items_key [OF run that] pass raise assms(4) show ?thesis by simp
  qed
  from guard pass raise one many show ?thesis by blast
qed

theorem falsy_current_bypasses_mismatch_guard_witness:
  "PSet {} \<in> {PSet {}, PList [], PDict []}
   \<and> PList [PInt 1] \<noteq> PNone
   \<and> type_of (PList [PInt 1]) \<noteq> type_of (PSet {})
   \<and> dict_get [(''files'', PSet {})] ''files'' = PSet {}
   \<and> get_merged_job_kwargs [(''files'', PSet {})] [(''files'', PList [PInt 1])]
       = Inl TypeError"
proof -
  have a: "PSet {} \<in> {PSet {}, PList [], PDict []}" by simp
  have b: "PList [PInt 1] \<noteq> PNone" by simp
  have c: "type_of (PList [PInt 1]) \<noteq> type_of (PSet {})" by simp
  have d: "dict_get [(''files'', PSet {})] ''files'' = PSet {}" by (simp add: dict_get_def)
  from falsy_current_bypasses_mismatch_guard [OF a b c d]
  have "get_merged_job_kwargs [(''files'', PSet {})] [(''files'', PList [PInt 1])]
       = Inl TypeError" by blast
  with a b c d show ?thesis by blast
qed

section \<open>Properties of the control loop\<close>

lemma map_of_delete: "map_of (AList.delete k d) k' = (if k' = k then None else map_of d k')"
  by (simp add: delete_conv')

lemma delete_absent: "map_of d k = None \<Longrightarrow> AList.delete k d = d"
  by (simp add: delete_id map_of_eq_None_iff)

lemma dict_pop_default_rest:
  "snd (dict_pop_default d k dflt) = AList.delete k d"
  by (simp add: dict_pop_default_def delete_absent split: option.splits)

lemma dict_pop_default_value:
  "truthy (fst (dict_pop_default d k (PBool False))) = truthy (dict_get d k)"
  by (simp add: dict_pop_default_def dict_get_def split: option.splits)

lemma dict_get_delete: "k' \<noteq> k \<Longrightarrow> dict_get (AList.delete k d) k' = dict_get d k'"
  by (simp add: dict_get_def map_of_delete)

text \<open>Looking a job up after \<^verbatim>\<open>Job.modify\<close> has stored it.\<close>

lemma find_names_job_id: "find (names_job (PStr s)) js = Some j \<Longrightarrow> job_id j = s"
  by (induction js) (auto split: if_splits)

lemma find_after_store:
  assumes "find (names_job (PStr s)) js = Some j" and "job_id j' = s"
  shows "find (names_job (PStr s)) (map (\<lambda>old. if job_id old = job_id j' then j' else old) js)
           = Some j'"
  using assms by (induction js) (auto split: if_splits)

lemma job_ids_after_store:
  "map job_id (map (\<lambda>old. if job_id old = job_id j' then j' else old) js) = map job_id js"
  by (induction js) auto

lemma job_id_job_modify: "job_id (job_modify j t kw) = job_id j"
  by (simp add: job_modify_def split: option.splits)

text \<open>
  A message for a job that exists and that does not ask for cancellation is handed to
  \<^verbatim>\<open>_modify_job\<close> without its \<^verbatim>\<open>job_id\<close> and \<^verbatim>\<open>cancel\<close> entries.
\<close>

lemma handle_existing_job:
  assumes "map_of job_information JOB_ID_KEY = Some (PStr s)"
    and "find (names_job (PStr s)) (jobs sched) = Some j"
    and "\<not> truthy (dict_get job_information CANCEL_JOB_KEY)"
  shows "handle_next_queue_item dump_id max_delay now sched job_information
           = modify_job_private now sched j
               (AList.delete CANCEL_JOB_KEY (AList.delete JOB_ID_KEY job_information))"
proof -
  let ?info = "AList.delete JOB_ID_KEY job_information"
  have pop: "dict_pop job_information JOB_ID_KEY = Some (PStr s, ?info)"
    using assms(1) by (simp add: dict_pop_def)
  have get: "get_job sched (PStr s) = Inr (Some j)"
    using assms(2) by (simp add: get_job_def)
  have "dict_get ?info CANCEL_JOB_KEY = dict_get job_information CANCEL_JOB_KEY"
    by (rule dict_get_delete) (simp add: JOB_ID_KEY_def CANCEL_JOB_KEY_def)
  with assms(3) have no_cancel: "\<not> truthy (fst (dict_pop_default ?info CANCEL_JOB_KEY (PBool False)))"
    by (simp add: dict_pop_default_value)
  obtain c rest where cr: "dict_pop_default ?info CANCEL_JOB_KEY (PBool False) = (c, rest)"
    by (cases "dict_pop_default ?info CANCEL_JOB_KEY (PBool False)")
  with no_cancel dict_pop_default_rest [of ?info CANCEL_JOB_KEY "PBool False"]
  have "\<not> truthy c" and "rest = AList.delete CANCEL_JOB_KEY ?info" by simp_all
  with pop get cr show ?thesis
    by (simp add: handle_next_queue_item_def)
qed

text \<open>What \<^verbatim>\<open>_modify_job\<close> leaves in the job table when the merge returns.\<close>

lemma modify_job_private_result:
  assumes "find (names_job (PStr s)) (jobs sched) = Some j"
    and "get_merged_job_kwargs (kwargs j) (AList.delete ''run_immediately'' job_modification)
           = Inr (merged, warnings)"
  shows "\<exists>sched'. modify_job_private now sched j job_modification = Inr sched'
           \<and> map job_id (jobs sched') = map job_id (jobs sched)
           \<and> find (names_job (PStr s)) (jobs sched')
               = Some (job_modify j
                   (if truthy (dict_get job_modification ''run_immediately'')
                    then Some now else None) merged)"
proof -
  let ?new = "if truthy (dict_get job_modification ''run_immediately'') then Some now else None"
  obtain r rest where pr:
    "dict_pop_default job_modification ''run_immediately'' (PBool False) = (r, rest)"
    by (cases "dict_pop_default job_modification ''run_immediately'' (PBool False)")
  with dict_pop_default_rest [of job_modification "''run_immediately''" "PBool False"]
    dict_pop_default_value [of job_modification "''run_immediately''"]
  have rest: "rest = AList.delete ''run_immediately'' job_modification"
    and r: "truthy r = truthy (dict_get job_modification ''run_immediately'')" by simp_all
  from find_names_job_id [OF assms(1)] have id: "job_id (job_modify j ?new merged) = s"
    by (simp add: job_id_job_modify)
  from find_after_store [OF assms(1) id]
  have found: "find (names_job (PStr s)) (jobs (store_job sched (job_modify j ?new merged)))
                 = Some (job_modify j ?new merged)"
    by (simp add: store_job_def)
  have ids: "map job_id (jobs (store_job sched (job_modify j ?new merged)))
               = map job_id (jobs sched)"
    by (simp add: store_job_def job_ids_after_store)
  from pr rest r assms(2) found ids show ?thesis
    by (simp add: modify_job_private_def log_to_def)
qed

text \<open>A message for the dumping job when no such job is scheduled.\<close>

lemma handle_absent_dump_job:
  assumes "map_of job_information JOB_ID_KEY = Some (PStr dump_id)"
    and "find (names_job (PStr dump_id)) (jobs sched) = None"
  shows "handle_next_queue_item dump_id max_delay now sched job_information
           = Inr (add_job_to_dump_files dump_id max_delay now sched
                    (AList.delete CANCEL_JOB_KEY (AList.delete JOB_ID_KEY job_information)))"
proof -
  let ?info = "AList.delete JOB_ID_KEY job_information"
  have pop: "dict_pop job_information JOB_ID_KEY = Some (PStr dump_id, ?info)"
    using assms(1) by (simp add: dict_pop_def)
  have get: "get_job sched (PStr dump_id) = Inr None"
    using assms(2) by (simp add: get_job_def)
  obtain c rest where cr: "dict_pop_default ?info CANCEL_JOB_KEY (PBool False) = (c, rest)"
    by (cases "dict_pop_default ?info CANCEL_JOB_KEY (PBool False)")
  with dict_pop_default_rest [of ?info CANCEL_JOB_KEY "PBool False"]
  have "rest = AList.delete CANCEL_JOB_KEY ?info" by simp
  with pop get cr show ?thesis
    by (simp add: handle_next_queue_item_def)
qed

text \<open>
  Cancellation of a job that exists removes it, and cancellation of an absent job whose id
  is not the id of the dumping job only logs a warning.
\<close>

lemma cancel_existing_job:
  assumes "map_of job_information JOB_ID_KEY = Some (PStr s)"
    and "find (names_job (PStr s)) (jobs sched) = Some j"
    and "truthy (dict_get job_information CANCEL_JOB_KEY)"
  shows "handle_next_queue_item dump_id max_delay now sched job_information
           = Inr (remove_job sched (PStr s))"
proof -
  let ?info = "AList.delete JOB_ID_KEY job_information"
  have pop: "dict_pop job_information JOB_ID_KEY = Some (PStr s, ?info)"
    using assms(1) by (simp add: dict_pop_def)
  have get: "get_job sched (PStr s) = Inr (Some j)"
    using assms(2) by (simp add: get_job_def)
  have "dict_get ?info CANCEL_JOB_KEY = dict_get job_information CANCEL_JOB_KEY"
    by (rule dict_get_delete) (simp add: JOB_ID_KEY_def CANCEL_JOB_KEY_def)
  with assms(3) have cancel: "truthy (fst (dict_pop_default ?info CANCEL_JOB_KEY (PBool False)))"
    by (simp add: dict_pop_default_value)
  obtain c rest where cr: "dict_pop_default ?info CANCEL_JOB_KEY (PBool False) = (c, rest)"
    by (cases "dict_pop_default ?info CANCEL_JOB_KEY (PBool False)")
  with cancel have "truthy c" by simp
  with pop get cr show ?thesis
    by (simp add: handle_next_queue_item_def)
qed

lemma cancel_absent_other_job:
  assumes "find (names_job (PStr s)) (jobs sched) = None" and "s \<noteq> dump_id"
  shows "handle_next_queue_item dump_id max_delay now sched
           [(JOB_ID_KEY, PStr s), (CANCEL_JOB_KEY, PBool True)]
           = Inr (log_to sched [JobNotFoundWarning (PStr s)])"
  using assms
  by (simp add: handle_next_queue_item_def dict_pop_def dict_pop_default_def get_job_def
      JOB_ID_KEY_def CANCEL_JOB_KEY_def AList.delete_eq)

text \<open>
  C3. The claim holds for a job that is scheduled and for an absent job with any other id,
  but not for the id of the dumping job: the message \<^verbatim>\<open>cancel_job\<close> sends for it, handled
  while no job is scheduled, is not a no-op. It falls through to \<^verbatim>\<open>_add_job_to_dump_files\<close>
  and schedules a dumping job with empty kwargs.
\<close>

theorem cancel_absent_dump_job_schedules_one:
  "cancel_job [] dump_id = [[(JOB_ID_KEY, PStr dump_id), (CANCEL_JOB_KEY, PBool True)]]
   \<and> handle_next_queue_item dump_id max_delay now \<lparr>jobs = [], logged = []\<rparr>
        [(JOB_ID_KEY, PStr dump_id), (CANCEL_JOB_KEY, PBool True)]
      = Inr \<lparr>jobs = [\<lparr>job_id = dump_id, func = DumpChanges,
                       trigger = DateTrigger (now + max_delay),
                       next_run_time = now + max_delay, kwargs = []\<rparr>],
             logged = [CreatedDumpJobDebug]\<rparr>"
  by (simp add: cancel_job_def handle_next_queue_item_def dict_pop_def dict_pop_default_def
      get_job_def add_job_to_dump_files_def add_job_def log_to_def Let_def
      JOB_ID_KEY_def CANCEL_JOB_KEY_def AList.delete_eq)

text \<open>
  A message for the dumping job that arrives while no dumping job is scheduled adds one job
  with a date trigger at the time of handling plus the maximum dumping delay, whose kwargs
  are the message without its \<^verbatim>\<open>job_id\<close> and \<^verbatim>\<open>cancel\<close> entries. A message that arrives
  while a dumping job is scheduled, and that does not ask for cancellation, adds no job:
  when the merge of its kwargs returns, the job table holds the same ids as before and the
  dumping job holds the merged kwargs under its unchanged trigger.
\<close>

lemma dump_job_created_once_then_merged:
  assumes "map_of job_information JOB_ID_KEY = Some (PStr dump_id)"
  shows "(find (names_job (PStr dump_id)) (jobs sched) = None \<longrightarrow>
            handle_next_queue_item dump_id max_delay now sched job_information
              = Inr (sched\<lparr>jobs := jobs sched @
                        [\<lparr>job_id = dump_id, func = DumpChanges,
                          trigger = DateTrigger (now + max_delay),
                          next_run_time = now + max_delay,
                          kwargs = AList.delete CANCEL_JOB_KEY
                                     (AList.delete JOB_ID_KEY job_information)\<rparr>],
                      logged := logged sched @ [CreatedDumpJobDebug]\<rparr>))
       \<and> (\<forall>j merged warnings.
             find (names_job (PStr dump_id)) (jobs sched) = Some j
             \<and> \<not> truthy (dict_get job_information CANCEL_JOB_KEY)
             \<and> get_merged_job_kwargs (kwargs j)
                 (AList.delete ''run_immediately''
                   (AList.delete CANCEL_JOB_KEY (AList.delete JOB_ID_KEY job_information)))
                 = Inr (merged, warnings)
            \<longrightarrow> (\<exists>sched' j'.
                   handle_next_queue_item dump_id max_delay now sched job_information
                     = Inr sched'
                   \<and> map job_id (jobs sched') = map job_id (jobs sched)
                   \<and> find (names_job (PStr dump_id)) (jobs sched') = Some j'
                   \<and> kwargs j' = merged \<and> trigger j' = trigger j))"
proof -
  have created: "handle_next_queue_item dump_id max_delay now sched job_information
              = Inr (sched\<lparr>jobs := jobs sched @
                        [\<lparr>job_id = dump_id, func = DumpChanges,
                          trigger = DateTrigger (now + max_delay),
                          next_run_time = now + max_delay,
                          kwargs = AList.delete CANCEL_JOB_KEY
                                     (AList.delete JOB_ID_KEY job_information)\<rparr>],
                      logged := logged sched @ [CreatedDumpJobDebug]\<rparr>)"
    if "find (names_job (PStr dump_id)) (jobs sched) = None"
    using handle_absent_dump_job [OF assms that]
    by (simp add: add_job_to_dump_files_def add_job_def log_to_def Let_def)
  have merged: "\<exists>sched' j'.
                   handle_next_queue_item dump_id max_delay now sched job_information
                     = Inr sched'
                   \<and> map job_id (jobs sched') = map job_id (jobs sched)
                   \<and> find (names_job (PStr dump_id)) (jobs sched') = Some j'
                   \<and> kwargs j' = merged \<and> trigger j' = trigger j"
    if found: "find (names_job (PStr dump_id)) (jobs sched) = Some j"
      and no_cancel: "\<not> truthy (dict_get job_information CANCEL_JOB_KEY)"
      and run: "get_merged_job_kwargs (kwargs j)
                 (AList.delete ''run_immediately''
                   (AList.delete CANCEL_JOB_KEY (AList.delete JOB_ID_KEY job_information)))
                 = Inr (merged, warnings)"
    for j merged warnings
  proof -
    let ?info = "AList.delete CANCEL_JOB_KEY (AList.delete JOB_ID_KEY job_information)"
    from modify_job_private_result [OF found run, of now]
    obtain sched' where
      "modify_job_private now sched j ?info = Inr sched'"
      "map job_id (jobs sched') = map job_id (jobs sched)"
      "find (names_job (PStr dump_id)) (jobs sched')
         = Some (job_modify j
                   (if truthy (dict_get ?info ''run_immediately'') then Some now else None)
                   merged)"
      by blast
    moreover have "kwargs (job_modify j t merged) = merged"
      and "trigger (job_modify j t merged) = trigger j" for t
      by (simp_all add: job_modify_def split: option.splits)
    ultimately show ?thesis
      using handle_existing_job [OF assms found no_cancel] by auto
  qed
  from created merged show ?thesis by blast
qed

lemma dump_job_created_once_then_merged_example:
  "map_of [(''files'', PSet {AStr ''a''}), (JOB_ID_KEY, PStr ''dump'')] JOB_ID_KEY
     = Some (PStr ''dump'')
   \<and> find (names_job (PStr ''dump'')) (jobs \<lparr>jobs = [], logged = []\<rparr>) = None
   \<and> handle_next_queue_item ''dump'' 60 1000 \<lparr>jobs = [], logged = []\<rparr>
        [(''files'', PSet {AStr ''a''}), (JOB_ID_KEY, PStr ''dump'')]
      = Inr \<lparr>jobs = [\<lparr>job_id = ''dump'', func = DumpChanges, trigger = DateTrigger 1060,
                       next_run_time = 1060, kwargs = [(''files'', PSet {AStr ''a''})]\<rparr>],
             logged = [CreatedDumpJobDebug]\<rparr>
   \<and> map_of [(''files'', PSet {AStr ''b''}), (JOB_ID_KEY, PStr ''dump'')] JOB_ID_KEY
     = Some (PStr ''dump'')
   \<and> \<not> truthy (dict_get [(''files'', PSet {AStr ''b''}), (JOB_ID_KEY, PStr ''dump'')]
                 CANCEL_JOB_KEY)
   \<and> get_merged_job_kwargs [(''files'', PSet {AStr ''a''})]
        (AList.delete ''run_immediately'' (AList.delete CANCEL_JOB_KEY (AList.delete JOB_ID_KEY
           [(''files'', PSet {AStr ''b''}), (JOB_ID_KEY, PStr ''dump'')])))
      = Inr ([(''files'', PSet {AStr ''a'', AStr ''b''})], [])
   \<and> handle_next_queue_item ''dump'' 60 1010
        \<lparr>jobs = [\<lparr>job_id = ''dump'', func = DumpChanges, trigger = DateTrigger 1060,
                   next_run_time = 1060, kwargs = [(''files'', PSet {AStr ''a''})]\<rparr>],
         logged = []\<rparr>
        [(''files'', PSet {AStr ''b''}), (JOB_ID_KEY, PStr ''dump'')]
      = Inr \<lparr>jobs = [\<lparr>job_id = ''dump'', func = DumpChanges, trigger = DateTrigger 1060,
                       next_run_time = 1060,
                       kwargs = [(''files'', PSet {AStr ''a'', AStr ''b''})]\<rparr>],
             logged = [ModifyingJobDebug ''dump'']\<rparr>"
proof -
  let ?first = "[(''files'', PSet {AStr ''a''}), (JOB_ID_KEY, PStr ''dump'')]"
  let ?second = "[(''files'', PSet {AStr ''b''}), (JOB_ID_KEY, PStr ''dump'')]"
  let ?job = "\<lparr>job_id = ''dump'', func = DumpChanges, trigger = DateTrigger 1060,
               next_run_time = 1060, kwargs = [(''files'', PSet {AStr ''a''})]\<rparr>"
  have id1: "map_of ?first JOB_ID_KEY = Some (PStr ''dump'')"
    by (simp add: JOB_ID_KEY_def)
  have none: "find (names_job (PStr ''dump'')) (jobs \<lparr>jobs = [], logged = []\<rparr>) = None"
    by simp
  from dump_job_created_once_then_merged [OF id1, of "\<lparr>jobs = [], logged = []\<rparr>" 60 1000] none
  have created: "handle_next_queue_item ''dump'' 60 1000 \<lparr>jobs = [], logged = []\<rparr> ?first
      = Inr \<lparr>jobs = [?job], logged = [CreatedDumpJobDebug]\<rparr>"
    by (simp add: JOB_ID_KEY_def CANCEL_JOB_KEY_def AList.delete_eq)
  have id2: "map_of ?second JOB_ID_KEY = Some (PStr ''dump'')"
    by (simp add: JOB_ID_KEY_def)
  have no_cancel: "\<not> truthy (dict_get ?second CANCEL_JOB_KEY)"
    by (simp add: dict_get_def JOB_ID_KEY_def CANCEL_JOB_KEY_def)
  have run: "get_merged_job_kwargs [(''files'', PSet {AStr ''a''})]
        (AList.delete ''run_immediately'' (AList.delete CANCEL_JOB_KEY
           (AList.delete JOB_ID_KEY ?second)))
      = Inr ([(''files'', PSet {AStr ''a'', AStr ''b''})], [])"
    by (simp add: JOB_ID_KEY_def CANCEL_JOB_KEY_def AList.delete_eq files_example)
  have found: "find (names_job (PStr ''dump'')) (jobs \<lparr>jobs = [?job], logged = []\<rparr>) = Some ?job"
    by simp
  have run': "get_merged_job_kwargs (kwargs ?job)
        (AList.delete ''run_immediately'' (AList.delete CANCEL_JOB_KEY
           (AList.delete JOB_ID_KEY ?second)))
      = Inr ([(''files'', PSet {AStr ''a'', AStr ''b''})], [])"
    using run by simp
  from dump_job_created_once_then_merged [OF id2, of "\<lparr>jobs = [?job], logged = []\<rparr>" 60 1010]
  have "find (names_job (PStr ''dump'')) (jobs \<lparr>jobs = [?job], logged = []\<rparr>) = Some ?job
        \<and> \<not> truthy (dict_get ?second CANCEL_JOB_KEY)
        \<and> get_merged_job_kwargs (kwargs ?job)
            (AList.delete ''run_immediately'' (AList.delete CANCEL_JOB_KEY
               (AList.delete JOB_ID_KEY ?second)))
            = Inr ([(''files'', PSet {AStr ''a'', AStr ''b''})], [])
        \<longrightarrow> (\<exists>sched'. handle_next_queue_item ''dump'' 60 1010
               \<lparr>jobs = [?job], logged = []\<rparr> ?second = Inr sched')"
    by blast
  with found no_cancel run'
  have "\<exists>sched'. handle_next_queue_item ''dump'' 60 1010 \<lparr>jobs = [?job], logged = []\<rparr> ?second
          = Inr sched'"
    by blast
  moreover have "handle_next_queue_item ''dump'' 60 1010 \<lparr>jobs = [?job], logged = []\<rparr> ?second
      = Inr \<lparr>jobs = [?job\<lparr>kwargs := [(''files'', PSet {AStr ''a'', AStr ''b''})]\<rparr>],
             logged = [ModifyingJobDebug ''dump'']\<rparr>"
    by (simp add: handle_next_queue_item_def dict_pop_def dict_pop_default_def get_job_def
        modify_job_private_def get_merged_job_kwargs_def dict_get_def dict_set_def
        kwarg_type_mismatch_def store_job_def job_modify_def log_to_def
        JOB_ID_KEY_def CANCEL_JOB_KEY_def AList.delete_eq insert_commute)
  ultimately have merged: "handle_next_queue_item ''dump'' 60 1010
        \<lparr>jobs = [?job], logged = []\<rparr> ?second
      = Inr \<lparr>jobs = [\<lparr>job_id = ''dump'', func = DumpChanges, trigger = DateTrigger 1060,
                       next_run_time = 1060,
                       kwargs = [(''files'', PSet {AStr ''a'', AStr ''b''})]\<rparr>],
             logged = [ModifyingJobDebug ''dump'']\<rparr>"
    by simp
  from id1 none created id2 no_cancel run merged show ?thesis by blast
qed

text \<open>
  C7. The first half of the claim holds: a message for the dumping job that arrives while no
  dumping job is scheduled adds one job with a date trigger at the time of handling plus
  the maximum dumping delay, carrying the kwargs of the message. The second half is what
  \<^verbatim>\<open>_modify_job\<close> is written for, and the code misses it where a value of the pending job is
  an empty container: a later message whose value under the same key is of another type is
  not merged into the pending job. The mismatch test is passed over because the empty set is
  falsy, \<^verbatim>\<open>set() | ["a"]\<close> raises \<^verbatim>\<open>TypeError\<close>, and the exception leaves
  \<^verbatim>\<open>_handle_next_queue_item\<close> before \<^verbatim>\<open>Job.modify\<close> is called.
\<close>

theorem dump_message_lost_when_merge_raises:
  "handle_next_queue_item dump_id max_delay now \<lparr>jobs = [], logged = []\<rparr>
      [(''files'', PSet {}), (JOB_ID_KEY, PStr dump_id)]
     = Inr \<lparr>jobs = [\<lparr>job_id = dump_id, func = DumpChanges,
                      trigger = DateTrigger (now + max_delay),
                      next_run_time = now + max_delay, kwargs = [(''files'', PSet {})]\<rparr>],
            logged = [CreatedDumpJobDebug]\<rparr>
   \<and> handle_next_queue_item dump_id max_delay later
        \<lparr>jobs = [\<lparr>job_id = dump_id, func = DumpChanges,
                   trigger = DateTrigger (now + max_delay),
                   next_run_time = now + max_delay, kwargs = [(''files'', PSet {})]\<rparr>],
         logged = [CreatedDumpJobDebug]\<rparr>
        [(''files'', PList [PStr ''a'']), (JOB_ID_KEY, PStr dump_id)]
     = Inl TypeError"
  by (simp add: handle_next_queue_item_def dict_pop_def dict_pop_default_def get_job_def
      modify_job_private_def get_merged_job_kwargs_def dict_get_def kwarg_type_mismatch_def
      add_job_to_dump_files_def add_job_def log_to_def Let_def
      JOB_ID_KEY_def CANCEL_JOB_KEY_def AList.delete_eq)

text \<open>
  A message for a job that exists, that does not ask for cancellation and that carries a
  truthy \<^verbatim>\<open>run_immediately\<close>: when the merge of the remaining kwargs returns, the job is
  left with its next run at the time of handling and with the merged kwargs.
\<close>

lemma run_immediately_sets_next_run_and_merges:
  assumes "map_of job_information JOB_ID_KEY = Some (PStr s)"
    and "find (names_job (PStr s)) (jobs sched) = Some j"
    and "\<not> truthy (dict_get job_information CANCEL_JOB_KEY)"
    and "truthy (dict_get job_information ''run_immediately'')"
    and "get_merged_job_kwargs (kwargs j)
           (AList.delete ''run_immediately''
             (AList.delete CANCEL_JOB_KEY (AList.delete JOB_ID_KEY job_information)))
           = Inr (merged, warnings)"
  shows "\<exists>sched'. handle_next_queue_item dump_id max_delay now sched job_information = Inr sched'
           \<and> find (names_job (PStr s)) (jobs sched')
               = Some (j\<lparr>next_run_time := now, kwargs := merged\<rparr>)
           \<and> map job_id (jobs sched') = map job_id (jobs sched)"
proof -
  let ?info = "AList.delete CANCEL_JOB_KEY (AList.delete JOB_ID_KEY job_information)"
  have "dict_get ?info ''run_immediately'' = dict_get job_information ''run_immediately''"
    by (simp add: dict_get_delete JOB_ID_KEY_def CANCEL_JOB_KEY_def)
  with assms(4) have now: "truthy (dict_get ?info ''run_immediately'')" by simp
  from modify_job_private_result [OF assms(2) assms(5), of now] now
  obtain sched' where
    "modify_job_private now sched j ?info = Inr sched'"
    "map job_id (jobs sched') = map job_id (jobs sched)"
    "find (names_job (PStr s)) (jobs sched') = Some (job_modify j (Some now) merged)"
    by auto
  then show ?thesis
    using handle_existing_job [OF assms(1) assms(2) assms(3)]
    by (simp add: job_modify_def)
qed

lemma run_immediately_sets_next_run_and_merges_example:
  "run_job_immediately [] ''git'' [(''files'', PSet {AStr ''b''})]
     = [[(''run_immediately'', PBool True), (''files'', PSet {AStr ''b''}),
         (JOB_ID_KEY, PStr ''git'')]]
   \<and> map_of [(''run_immediately'', PBool True), (''files'', PSet {AStr ''b''}),
              (JOB_ID_KEY, PStr ''git'')] JOB_ID_KEY = Some (PStr ''git'')
   \<and> \<not> truthy (dict_get [(''run_immediately'', PBool True), (''files'', PSet {AStr ''b''}),
                           (JOB_ID_KEY, PStr ''git'')] CANCEL_JOB_KEY)
   \<and> truthy (dict_get [(''run_immediately'', PBool True), (''files'', PSet {AStr ''b''}),
                         (JOB_ID_KEY, PStr ''git'')] ''run_immediately'')
   \<and> handle_next_queue_item ''dump'' 60 1500
        \<lparr>jobs = [\<lparr>job_id = ''git'', func = OtherJobFunc, trigger = CronTrigger,
                   next_run_time = 2000, kwargs = [(''files'', PSet {AStr ''a''})]\<rparr>],
         logged = []\<rparr>
        [(''run_immediately'', PBool True), (''files'', PSet {AStr ''b''}),
         (JOB_ID_KEY, PStr ''git'')]
      = Inr \<lparr>jobs = [\<lparr>job_id = ''git'', func = OtherJobFunc, trigger = CronTrigger,
                       next_run_time = 1500,
                       kwargs = [(''files'', PSet {AStr ''a'', AStr ''b''})]\<rparr>],
             logged = [RunningImmediatelyDebug ''git'', ModifyingJobDebug ''git'']\<rparr>"
proof -
  let ?msg = "[(''run_immediately'', PBool True), (''files'', PSet {AStr ''b''}),
               (JOB_ID_KEY, PStr ''git'')]"
  let ?job = "\<lparr>job_id = ''git'', func = OtherJobFunc, trigger = CronTrigger,
               next_run_time = 2000, kwargs = [(''files'', PSet {AStr ''a''})]\<rparr>"
  let ?sched = "\<lparr>jobs = [?job], logged = []\<rparr>"
  have sent: "run_job_immediately [] ''git'' [(''files'', PSet {AStr ''b''})] = [?msg]"
    by (simp add: run_job_immediately_def modify_job_def dict_set_def JOB_ID_KEY_def)
  have ident: "map_of ?msg JOB_ID_KEY = Some (PStr ''git'')"
    by (simp add: JOB_ID_KEY_def)
  have found: "find (names_job (PStr ''git'')) (jobs ?sched) = Some ?job"
    by simp
  have no_cancel: "\<not> truthy (dict_get ?msg CANCEL_JOB_KEY)"
    by (simp add: dict_get_def JOB_ID_KEY_def CANCEL_JOB_KEY_def)
  have immediately: "truthy (dict_get ?msg ''run_immediately'')"
    by (simp add: dict_get_def)
  have run: "get_merged_job_kwargs (kwargs ?job)
        (AList.delete ''run_immediately'' (AList.delete CANCEL_JOB_KEY
           (AList.delete JOB_ID_KEY ?msg)))
      = Inr ([(''files'', PSet {AStr ''a'', AStr ''b''})], [])"
    by (simp add: JOB_ID_KEY_def CANCEL_JOB_KEY_def AList.delete_eq files_example)
  from run_immediately_sets_next_run_and_merges
         [OF ident found no_cancel immediately run, of "''dump''" 60 1500]
  obtain sched' where
    handled: "handle_next_queue_item ''dump'' 60 1500 ?sched ?msg = Inr sched'"
    and job': "find (names_job (PStr ''git'')) (jobs sched')
                 = Some (?job\<lparr>next_run_time := 1500,
                              kwargs := [(''files'', PSet {AStr ''a'', AStr ''b''})]\<rparr>)"
    by blast
  have "handle_next_queue_item ''dump'' 60 1500 ?sched ?msg
      = Inr \<lparr>jobs = [?job\<lparr>next_run_time := 1500,
                            kwargs := [(''files'', PSet {AStr ''a'', AStr ''b''})]\<rparr>],
             logged = [RunningImmediatelyDebug ''git'', ModifyingJobDebug ''git'']\<rparr>"
    by (simp add: handle_next_queue_item_def dict_pop_def dict_pop_default_def get_job_def
        modify_job_private_def get_merged_job_kwargs_def dict_get_def dict_set_def
        kwarg_type_mismatch_def store_job_def job_modify_def log_to_def
        JOB_ID_KEY_def CANCEL_JOB_KEY_def AList.delete_eq insert_commute)
  with handled job' have result: "handle_next_queue_item ''dump'' 60 1500 ?sched ?msg
      = Inr \<lparr>jobs = [\<lparr>job_id = ''git'', func = OtherJobFunc, trigger = CronTrigger,
                       next_run_time = 1500,
                       kwargs = [(''files'', PSet {AStr ''a'', AStr ''b''})]\<rparr>],
             logged = [RunningImmediatelyDebug ''git'', ModifyingJobDebug ''git'']\<rparr>"
    by simp
  from sent ident no_cancel immediately result show ?thesis by blast
qed

text \<open>
  C8. The claim is what \<^verbatim>\<open>_modify_job\<close> is written for, and the code misses it where the
  merge raises. The next run time is only put among the changes; it reaches the job with
  the call of \<^verbatim>\<open>Job.modify\<close> that follows the merge. For a job whose kwargs hold an empty
  set and a command of \<^verbatim>\<open>run_job_immediately\<close> that carries a list under the same key, the
  mismatch test is passed over, \<^verbatim>\<open>set() | ["a"]\<close> raises \<^verbatim>\<open>TypeError\<close>, and the exception
  leaves \<^verbatim>\<open>_handle_next_queue_item\<close>: the job is not modified, so its next run is not set to
  the time of handling and nothing is merged.
\<close>

theorem run_immediately_lost_when_merge_raises:
  "run_job_immediately [] ''git'' [(''files'', PList [PStr ''a''])]
     = [[(''run_immediately'', PBool True), (''files'', PList [PStr ''a'']),
         (JOB_ID_KEY, PStr ''git'')]]
   \<and> truthy (dict_get [(''run_immediately'', PBool True), (''files'', PList [PStr ''a'']),
                         (JOB_ID_KEY, PStr ''git'')] ''run_immediately'')
   \<and> modify_job_private now
        \<lparr>jobs = [\<lparr>job_id = ''git'', func = OtherJobFunc, trigger = CronTrigger,
                   next_run_time = 2000, kwargs = [(''files'', PSet {})]\<rparr>],
         logged = []\<rparr>
        \<lparr>job_id = ''git'', func = OtherJobFunc, trigger = CronTrigger,
          next_run_time = 2000, kwargs = [(''files'', PSet {})]\<rparr>
        [(''run_immediately'', PBool True), (''files'', PList [PStr ''a''])]
     = Inl TypeError
   \<and> handle_next_queue_item dump_id max_delay now
        \<lparr>jobs = [\<lparr>job_id = ''git'', func = OtherJobFunc, trigger = CronTrigger,
                   next_run_time = 2000, kwargs = [(''files'', PSet {})]\<rparr>],
         logged = []\<rparr>
        [(''run_immediately'', PBool True), (''files'', PList [PStr ''a'']),
         (JOB_ID_KEY, PStr ''git'')]
     = Inl TypeError"
  by (simp add: run_job_immediately_def modify_job_def dict_set_def
      handle_next_queue_item_def dict_pop_def dict_pop_default_def get_job_def
      modify_job_private_def get_merged_job_kwargs_def dict_get_def kwarg_type_mismatch_def
      JOB_ID_KEY_def CANCEL_JOB_KEY_def AList.delete_eq)

section \<open>Properties of the HTTP endpoints\<close>

text \<open>
  C4, as stated, fails on the create endpoint: a rejection of HTTPS credentials raised by
  \<^verbatim>\<open>save_repository\<close> is an instance of \<^verbatim>\<open>CredentialsError\<close>, the only credentials clause of
  \<^verbatim>\<open>add_repository\<close>, and is answered with 422, not 403.
\<close>

theorem add_repository_https_rejection_counterexample:
  "add_repository (Raised GitHTTPSCredentialsError) (Returned ()) (Returned ())
     = (Returned (ErrorResponse 422 ''RepositoryCreationFailed''
          [Lit ''Insufficient permissions for remote repository.'']
          (Some GitHTTPSCredentialsError)) :: unit http_response outcome)
   \<and> (422 :: nat) \<noteq> 403"
  by (simp add: add_repository_def is_instance_def UNPROCESSABLE_ENTITY_def)

text \<open>
  C4, amended. The create endpoint answers every credentials rejection raised by
  \<^verbatim>\<open>save_repository\<close>, over HTTPS or not, with status 422 and the error code
  \<^verbatim>\<open>RepositoryCreationFailed\<close>. The update endpoint answers a rejection of HTTPS credentials
  raised by \<^verbatim>\<open>update_repository\<close> with status 403 and the error code
  \<^verbatim>\<open>IncorrectCredentials\<close>.
\<close>

theorem credentials_rejection_status_per_endpoint:
  assumes "is_instance e CredentialsError"
  shows "add_repository (Raised e) trigger_sync send_message
           = (Returned (ErrorResponse 422 ''RepositoryCreationFailed''
               [Lit ''Insufficient permissions for remote repository.''] (Some e))
              :: 'a http_response outcome)
       \<and> update_repository repository_id (Raised GitHTTPSCredentialsError)
           = (Returned (ErrorResponse 403 ''IncorrectCredentials'' []
               (Some GitHTTPSCredentialsError)) :: 'a http_response outcome)"
  using assms
  by (auto simp: add_repository_def update_repository_def is_instance_def
      UNPROCESSABLE_ENTITY_def FORBIDDEN_def)

theorem credentials_rejection_status_per_endpoint_witness:
  "is_instance GitHTTPSCredentialsError CredentialsError
   \<and> is_instance CredentialsError CredentialsError
   \<and> status (ErrorResponse 422 ''RepositoryCreationFailed''
        [Lit ''Insufficient permissions for remote repository.'']
        (Some GitHTTPSCredentialsError) :: unit http_response) = 422
   \<and> add_repository (Raised GitHTTPSCredentialsError) (Returned ()) (Returned ())
       = (Returned (ErrorResponse 422 ''RepositoryCreationFailed''
            [Lit ''Insufficient permissions for remote repository.'']
            (Some GitHTTPSCredentialsError)) :: unit http_response outcome)
   \<and> add_repository (Raised CredentialsError) (Returned ()) (Returned ())
       = (Returned (ErrorResponse 422 ''RepositoryCreationFailed''
            [Lit ''Insufficient permissions for remote repository.'']
            (Some CredentialsError)) :: unit http_response outcome)
   \<and> update_repository 7 (Raised GitHTTPSCredentialsError)
       = (Returned (ErrorResponse 403 ''IncorrectCredentials'' []
            (Some GitHTTPSCredentialsError)) :: unit http_response outcome)"
proof -
  have a: "is_instance GitHTTPSCredentialsError CredentialsError"
    and b: "is_instance CredentialsError CredentialsError"
    by (simp_all add: is_instance_def)
  from credentials_rejection_status_per_endpoint
         [where 'a = unit, OF a, of "Returned ()" "Returned ()" 7]
    credentials_rejection_status_per_endpoint
         [where 'a = unit, OF b, of "Returned ()" "Returned ()" 7]
    a b
  show ?thesis by simp
qed

text \<open>
  C5. The create-commit endpoint answers 201 with the commit when
  \<^verbatim>\<open>commit_and_push_changes_to\<close> returns it and the websocket message is sent, 403 with the
  error code \<^verbatim>\<open>BranchIsProtected\<close> when the call raises \<^verbatim>\<open>GitCommitError\<close>, and 409 with
  the error code \<^verbatim>\<open>AnotherIVCOperationInProgress\<close> when it raises
  \<^verbatim>\<open>GitConcurrentOperationException\<close>.
\<close>

theorem create_commit_statuses:
  "(commit_and_push_changes_to branch_name = Returned commit \<and> send_message = Returned ()
      \<longrightarrow> create_commit commit_and_push_changes_to send_message repository_id branch_name
            = Returned (JsonResponse 201 commit))
   \<and> (commit_and_push_changes_to branch_name = Raised GitCommitError
      \<longrightarrow> create_commit commit_and_push_changes_to send_message repository_id branch_name
            = Returned (ErrorResponse 403 ''BranchIsProtected''
                [Lit ''Branch '', BranchNameArg branch_name,
                 Lit '' is protected. Please add your changes to a different branch.''] None))
   \<and> (commit_and_push_changes_to branch_name = Raised GitConcurrentOperationException
      \<longrightarrow> create_commit commit_and_push_changes_to send_message repository_id branch_name
            = Returned (ErrorResponse 409 ''AnotherIVCOperationInProgress''
                [Lit ''There is another Integrated Version Control operation in progress.'']
                None))"
  by (simp add: create_commit_def is_instance_def CREATED_def FORBIDDEN_def CONFLICT_def)

theorem create_commit_statuses_witness:
  "create_commit (\<lambda>branch. Returned (''abc123'', branch)) (Returned ()) 7 ''main''
     = Returned (JsonResponse 201 (''abc123'', ''main''))
   \<and> status (JsonResponse 201 (''abc123'', ''main'')) = 201
   \<and> create_commit (\<lambda>branch. Raised GitCommitError :: (string \<times> string) outcome)
        (Returned ()) 7 ''main''
     = Returned (ErrorResponse 403 ''BranchIsProtected''
         [Lit ''Branch '', BranchNameArg ''main'',
          Lit '' is protected. Please add your changes to a different branch.''] None)
   \<and> create_commit (\<lambda>branch. Raised GitConcurrentOperationException :: (string \<times> string) outcome)
        (Returned ()) 7 ''main''
     = Returned (ErrorResponse 409 ''AnotherIVCOperationInProgress''
         [Lit ''There is another Integrated Version Control operation in progress.''] None)"
  using create_commit_statuses
          [of "\<lambda>branch. Returned (''abc123'', branch)" "''main''" "(''abc123'', ''main'')"
              "Returned ()" 7]
        create_commit_statuses
          [of "\<lambda>branch. Raised GitCommitError :: (string \<times> string) outcome" "''main''"
              "(''abc123'', ''main'')" "Returned ()" 7]
        create_commit_statuses
          [of "\<lambda>branch. Raised GitConcurrentOperationException :: (string \<times> string) outcome"
              "''main''" "(''abc123'', ''main'')" "Returned ()" 7]
  by simp

text \<open>
  C6. The checkout endpoint answers 204 with an empty body exactly when the checkout has
  returned and the awaited \<^verbatim>\<open>synchronize_project\<close> has returned as well, so no success is
  reported before the synchronization has finished. A \<^verbatim>\<open>ProjectLayoutError\<close> of either call
  is answered with 400 and the error code \<^verbatim>\<open>InvalidProjectLayout\<close>, a \<^verbatim>\<open>ValueError\<close> of
  either call with 404 and the error code \<^verbatim>\<open>BranchNotFound\<close>.
\<close>

theorem checkout_branch_statuses:
  "((checkout_branch git_checkout_branch synchronize_project repository_id branch_name force
       = (Returned (TextResponse 204 []) :: 'a http_response outcome))
      \<longleftrightarrow> git_checkout_branch branch_name force False = Returned ()
          \<and> synchronize_project True = Returned ())
   \<and> (git_checkout_branch branch_name force False = Raised ProjectLayoutError
       \<or> git_checkout_branch branch_name force False = Returned ()
          \<and> synchronize_project True = Raised ProjectLayoutError
      \<longrightarrow> checkout_branch git_checkout_branch synchronize_project repository_id branch_name force
            = (Returned (ErrorResponse 400 ''InvalidProjectLayout''
                 [Lit ''Branch '', BranchNameArg branch_name, Lit '' for repository with ID '',
                  RepositoryIdArg repository_id,
                  Lit '' does not have a valid Rasa project layout.'']
                 (Some ProjectLayoutError)) :: 'a http_response outcome))
   \<and> (git_checkout_branch branch_name force False = Raised ValueError
       \<or> git_checkout_branch branch_name force False = Returned ()
          \<and> synchronize_project True = Raised ValueError
      \<longrightarrow> checkout_branch git_checkout_branch synchronize_project repository_id branch_name force
            = (Returned (ErrorResponse 404 ''BranchNotFound''
                 [Lit ''Branch '', BranchNameArg branch_name, Lit '' for repository with ID '',
                  RepositoryIdArg repository_id, Lit '' could not be found.'']
                 (Some ValueError)) :: 'a http_response outcome))"
proof -
  have success: "(checkout_branch git_checkout_branch synchronize_project repository_id
                    branch_name force
                    = (Returned (TextResponse 204 []) :: 'a http_response outcome))
      \<longleftrightarrow> git_checkout_branch branch_name force False = Returned ()
          \<and> synchronize_project True = Returned ()"
    by (cases "git_checkout_branch branch_name force False"; cases "synchronize_project True")
       (auto simp: checkout_branch_def is_instance_def NO_CONTENT_def)
  have layout: "checkout_branch git_checkout_branch synchronize_project repository_id
                  branch_name force
            = (Returned (ErrorResponse 400 ''InvalidProjectLayout''
                 [Lit ''Branch '', BranchNameArg branch_name, Lit '' for repository with ID '',
                  RepositoryIdArg repository_id,
                  Lit '' does not have a valid Rasa project layout.'']
                 (Some ProjectLayoutError)) :: 'a http_response outcome)"
    if "git_checkout_branch branch_name force False = Raised ProjectLayoutError
       \<or> git_checkout_branch branch_name force False = Returned ()
          \<and> synchronize_project True = Raised ProjectLayoutError"
    using that by (auto simp: checkout_branch_def is_instance_def BAD_REQUEST_def)
  have missing: "checkout_branch git_checkout_branch synchronize_project repository_id
                   branch_name force
            = (Returned (ErrorResponse 404 ''BranchNotFound''
                 [Lit ''Branch '', BranchNameArg branch_name, Lit '' for repository with ID '',
                  RepositoryIdArg repository_id, Lit '' could not be found.'']
                 (Some ValueError)) :: 'a http_response outcome)"
    if "git_checkout_branch branch_name force False = Raised ValueError
       \<or> git_checkout_branch branch_name force False = Returned ()
          \<and> synchronize_project True = Raised ValueError"
    using that by (auto simp: checkout_branch_def is_instance_def NOT_FOUND_def)
  from success layout missing show ?thesis by blast
qed

theorem checkout_branch_statuses_witness:
  "checkout_branch (\<lambda>branch force inject. Returned ()) (\<lambda>force_injection. Returned ())
       7 ''main'' True
     = (Returned (TextResponse 204 []) :: unit http_response outcome)
   \<and> checkout_branch (\<lambda>branch force inject. Returned ())
       (\<lambda>force_injection. Raised ProjectLayoutError) 7 ''main'' True
     = (Returned (ErrorResponse 400 ''InvalidProjectLayout''
          [Lit ''Branch '', BranchNameArg ''main'', Lit '' for repository with ID '',
           RepositoryIdArg 7, Lit '' does not have a valid Rasa project layout.'']
          (Some ProjectLayoutError)) :: unit http_response outcome)
   \<and> checkout_branch (\<lambda>branch force inject. Raised ValueError)
       (\<lambda>force_injection. Returned ()) 7 ''main'' True
     = (Returned (ErrorResponse 404 ''BranchNotFound''
          [Lit ''Branch '', BranchNameArg ''main'', Lit '' for repository with ID '',
           RepositoryIdArg 7, Lit '' could not be found.'']
          (Some ValueError)) :: unit http_response outcome)"
  using checkout_branch_statuses
          [where 'a = unit, of "\<lambda>branch force inject. Returned ()"
              "\<lambda>force_injection. Returned ()" 7 "''main''" True]
        checkout_branch_statuses
          [where 'a = unit, of "\<lambda>branch force inject. Returned ()"
              "\<lambda>force_injection. Raised ProjectLayoutError" 7 "''main''" True]
        checkout_branch_statuses
          [where 'a = unit, of "\<lambda>branch force inject. Raised ValueError"
              "\<lambda>force_injection. Returned ()" 7 "''main''" True]
  by simp

section \<open>When the merge returns\<close>

text \<open>
  The merge of one value returns whenever the two values are of the same type, and the loop
  returns whenever each item of the update either fails the mismatch test or has a value
  that merges with the current one.
\<close>

lemma merge_single_same_type_returns:
  "type_of c = type_of u \<Longrightarrow> \<exists>v. merge_single_job_kwarg c u = Inr v"
  by (cases c; cases u) simp_all

lemma merge_items_returns:
  assumes "distinct (map fst new)"
    and "\<forall>(k, u) \<in> set new. kwarg_type_mismatch (dict_get merged k) u
            \<or> (\<exists>v. merge_single_job_kwarg (dict_get merged k) u = Inr v)"
  shows "\<exists>r. merge_items new merged lg = Inr r"
  using assms
proof (induction new arbitrary: merged lg)
  case Nil
  then show ?case by simp
next
  case (Cons p new)
  obtain key updated where p: "p = (key, updated)" by (cases p)
  from Cons.prems(1) p have notin: "key \<notin> fst ` set new" and dist: "distinct (map fst new)"
    by auto
  show ?case
  proof (cases "kwarg_type_mismatch (dict_get merged key) updated")
    case True
    from Cons.prems(2) have "\<forall>(k, u) \<in> set new. kwarg_type_mismatch (dict_get merged k) u
            \<or> (\<exists>v. merge_single_job_kwarg (dict_get merged k) u = Inr v)" by simp
    from Cons.IH [OF dist this] True p show ?thesis by simp
  next
    case False
    with Cons.prems(2) p obtain v where
      v: "merge_single_job_kwarg (dict_get merged key) updated = Inr v" by auto
    have "\<forall>(k, u) \<in> set new. kwarg_type_mismatch (dict_get (dict_set merged key v) k) u
            \<or> (\<exists>w. merge_single_job_kwarg (dict_get (dict_set merged key v) k) u = Inr w)"
    proof (clarify)
      fix k u
      assume mem: "(k, u) \<in> set new"
        and "\<not> (\<exists>w. merge_single_job_kwarg (dict_get (dict_set merged key v) k) u = Inr w)"
      from mem notin have "k \<noteq> key" by force
      then have same: "dict_get (dict_set merged key v) k = dict_get merged k"
        by (simp add: dict_get_dict_set)
      from Cons.prems(2) mem
      have "kwarg_type_mismatch (dict_get merged k) u
            \<or> (\<exists>w. merge_single_job_kwarg (dict_get merged k) u = Inr w)" by auto
      with same \<open>\<not> (\<exists>w. merge_single_job_kwarg (dict_get (dict_set merged key v) k) u = Inr w)\<close>
      show "kwarg_type_mismatch (dict_get (dict_set merged key v) k) u" by simp
    qed
    from Cons.IH [OF dist this] False v p show ?thesis by simp
  qed
qed

lemma get_merged_job_kwargs_returns:
  assumes "distinct (map fst new)"
    and "\<forall>(k, u) \<in> set new. truthy (dict_get existing k) \<and> truthy u
            \<or> type_of (dict_get existing k) = type_of u
            \<or> dict_get existing k = PNone \<or> u = PNone"
  shows "\<exists>merged warnings. get_merged_job_kwargs existing new = Inr (merged, warnings)"
proof -
  have "\<forall>(k, u) \<in> set new. kwarg_type_mismatch (dict_get existing k) u
            \<or> (\<exists>v. merge_single_job_kwarg (dict_get existing k) u = Inr v)"
  proof (clarify)
    fix k u
    assume mem: "(k, u) \<in> set new"
      and no: "\<not> (\<exists>v. merge_single_job_kwarg (dict_get existing k) u = Inr v)"
    from assms(2) mem
    have shape: "truthy (dict_get existing k) \<and> truthy u
            \<or> type_of (dict_get existing k) = type_of u
            \<or> dict_get existing k = PNone \<or> u = PNone" by auto
    from no merge_single_same_type_returns [of "dict_get existing k" u]
    have differ: "type_of (dict_get existing k) \<noteq> type_of u" by blast
    from no have "dict_get existing k \<noteq> PNone" by auto
    moreover from no have "u \<noteq> PNone" by (cases "dict_get existing k") auto
    ultimately show "kwarg_type_mismatch (dict_get existing k) u"
      using shape differ by (simp add: kwarg_type_mismatch_def)
  qed
  from merge_items_returns [OF assms(1) this, of "[]"]
  show ?thesis by (auto simp: get_merged_job_kwargs_unfold)
qed

text \<open>
  What a message does to a job that exists, for every message that does not ask for
  cancellation and in which no value meets a falsy current value of another type: the
  message is handled without an exception, no job is added, the job keeps its trigger, its
  next run is the time of handling when \<^verbatim>\<open>run_immediately\<close> is truthy and unchanged
  otherwise, a key the job did not hold receives the value of the message, a value of the
  type of the current one is merged by \<^verbatim>\<open>_merge_single_job_kwarg\<close>, a truthy value of
  another type than the truthy current one is dropped, and the other keys of the job keep
  their entry.
\<close>

lemma existing_job_message_is_merged:
  fixes job_information :: pydict
  defines "rest \<equiv> AList.delete ''run_immediately''
                    (AList.delete CANCEL_JOB_KEY (AList.delete JOB_ID_KEY job_information))"
  assumes ident: "map_of job_information JOB_ID_KEY = Some (PStr s)"
    and found: "find (names_job (PStr s)) (jobs sched) = Some j"
    and no_cancel: "\<not> truthy (dict_get job_information CANCEL_JOB_KEY)"
    and dist: "distinct (map fst job_information)"
    and shape: "\<forall>(k, u) \<in> set rest. truthy (dict_get (kwargs j) k) \<and> truthy u
                  \<or> type_of (dict_get (kwargs j) k) = type_of u
                  \<or> dict_get (kwargs j) k = PNone \<or> u = PNone"
  shows "\<exists>sched' j'.
           handle_next_queue_item dump_id max_delay now sched job_information = Inr sched'
           \<and> map job_id (jobs sched') = map job_id (jobs sched)
           \<and> find (names_job (PStr s)) (jobs sched') = Some j'
           \<and> trigger j' = trigger j
           \<and> next_run_time j'
               = (if truthy (dict_get job_information ''run_immediately'')
                  then now else next_run_time j)
           \<and> (\<forall>(k, u) \<in> set rest.
                 (dict_get (kwargs j) k = PNone \<longrightarrow> dict_get (kwargs j') k = u)
                 \<and> (type_of (dict_get (kwargs j) k) = type_of u
                      \<longrightarrow> merge_single_job_kwarg (dict_get (kwargs j) k) u
                            = Inr (dict_get (kwargs j') k))
                 \<and> (kwarg_type_mismatch (dict_get (kwargs j) k) u
                      \<longrightarrow> map_of (kwargs j') k = map_of (kwargs j) k))
           \<and> (\<forall>k. k \<notin> fst ` set rest \<longrightarrow> map_of (kwargs j') k = map_of (kwargs j) k)"
proof -
  let ?info = "AList.delete CANCEL_JOB_KEY (AList.delete JOB_ID_KEY job_information)"
  have rest: "rest = AList.delete ''run_immediately'' ?info" by (simp add: rest_def)
  from dist have drest: "distinct (map fst rest)"
    by (simp add: rest_def distinct_delete)
  from get_merged_job_kwargs_returns [OF drest shape]
  obtain merged warnings where
    run: "get_merged_job_kwargs (kwargs j) rest = Inr (merged, warnings)" by blast
  then have items: "merge_items rest (kwargs j) [] = Inr (merged, warnings)"
    by (simp add: get_merged_job_kwargs_unfold)
  have ri: "dict_get ?info ''run_immediately'' = dict_get job_information ''run_immediately''"
    by (simp add: dict_get_delete JOB_ID_KEY_def CANCEL_JOB_KEY_def)
  let ?j' = "job_modify j (if truthy (dict_get ?info ''run_immediately'')
                           then Some now else None) merged"
  from modify_job_private_result [OF found run [unfolded rest], of now]
  obtain sched' where
    handled: "modify_job_private now sched j ?info = Inr sched'"
    and ids: "map job_id (jobs sched') = map job_id (jobs sched)"
    and job': "find (names_job (PStr s)) (jobs sched') = Some ?j'"
    by blast
  from handled handle_existing_job [OF ident found no_cancel]
  have h: "handle_next_queue_item dump_id max_delay now sched job_information = Inr sched'"
    by simp
  have kw: "kwargs ?j' = merged" and tr: "trigger ?j' = trigger j"
    by (simp_all add: job_modify_def)
  have nrt: "next_run_time ?j'
               = (if truthy (dict_get job_information ''run_immediately'')
                  then now else next_run_time j)"
    by (simp add: job_modify_def ri)
  have keys: "(dict_get (kwargs j) k = PNone \<longrightarrow> dict_get merged k = u)
                 \<and> (type_of (dict_get (kwargs j) k) = type_of u
                      \<longrightarrow> merge_single_job_kwarg (dict_get (kwargs j) k) u
                            = Inr (dict_get merged k))
                 \<and> (kwarg_type_mismatch (dict_get (kwargs j) k) u
                      \<longrightarrow> map_of merged k = map_of (kwargs j) k)"
    if "(k, u) \<in> set rest" for k u
    using merged_value_new_key [OF drest that run]
      merged_value_same_type [OF drest that run]
      merge_items_key [OF items drest that]
    by auto
  have others: "map_of merged k = map_of (kwargs j) k" if "k \<notin> fst ` set rest" for k
    using merge_items_other_keys [OF items that] .
  from keys have keys': "\<forall>(k, u) \<in> set rest.
                 (dict_get (kwargs j) k = PNone \<longrightarrow> dict_get (kwargs ?j') k = u)
                 \<and> (type_of (dict_get (kwargs j) k) = type_of u
                      \<longrightarrow> merge_single_job_kwarg (dict_get (kwargs j) k) u
                            = Inr (dict_get (kwargs ?j') k))
                 \<and> (kwarg_type_mismatch (dict_get (kwargs j) k) u
                      \<longrightarrow> map_of (kwargs ?j') k = map_of (kwargs j) k)"
    unfolding kw by blast
  from others have others': "\<forall>k. k \<notin> fst ` set rest
                 \<longrightarrow> map_of (kwargs ?j') k = map_of (kwargs j) k"
    unfolding kw by blast
  from h ids job' tr nrt keys' others' show ?thesis by blast
qed

end
